theory Spec2Isabelle
  imports Complex_Main
begin

section \<open>Numbers, errors and tensors\<close>

text \<open>
  The sampler of \<^verbatim>\<open>stable_diffusion.py\<close> computes with Python floats and with
  float32 tensors. The embedding reads every floating-point number as the real number
  it stands for and every arithmetic operation as the exact operation on reals, so the
  theorems about it are statements about the formulas the code evaluates; rounding,
  overflow to infinity and NaN are outside this reading, and the section on float32
  arithmetic gives the operations with their rounding. A tensor is the list of its
  elements in row-major order. All tensors that meet in one elementwise operation of the
  sampler have the latent's shape, and two such tensors have the same shape exactly when
  their lists have the same length.

  Exceptions are values: a function that can raise returns \<open>error + 'a\<close>.
\<close>

datatype error =
    AssertionError
  | IndexError
  | ValueError
  | ZeroDivisionError
  | ShapeMismatch
  | NonFinite

type_synonym tensor = "real list"

definition bind_err :: "error + 'a \<Rightarrow> ('a \<Rightarrow> error + 'b) \<Rightarrow> error + 'b" where
  "bind_err r f = (case r of Inl e \<Rightarrow> Inl e | Inr v \<Rightarrow> f v)"

definition math_sqrt :: "real \<Rightarrow> error + real" where
  \<comment> \<open>\<^verbatim>\<open>math.sqrt\<close>: a negative argument raises ValueError (math domain error).\<close>
  "math_sqrt v = (if v < 0 then Inl ValueError else Inr (sqrt v))"

definition math_log :: "real \<Rightarrow> error + real" where
  \<comment> \<open>\<^verbatim>\<open>math.log\<close>: an argument that is not positive raises ValueError.\<close>
  "math_log v = (if v \<le> 0 then Inl ValueError else Inr (ln v))"

definition scalar_mul :: "real \<Rightarrow> tensor \<Rightarrow> tensor" where
  \<comment> \<open>a Python number times a tensor\<close>
  "scalar_mul k x = map (\<lambda>v. k * v) x"

definition tensor_add :: "tensor \<Rightarrow> tensor \<Rightarrow> error + tensor" where
  \<comment> \<open>Elementwise sum of two tensors of one shape. Operands of different sizes, which
      the library would reject or broadcast, never meet in the sampler; the model
      reports them as an error.\<close>
  "tensor_add x y =
     (if length x = length y then Inr (map2 (\<lambda>a b. a + b) x y) else Inl ShapeMismatch)"

definition tensor_sub :: "tensor \<Rightarrow> tensor \<Rightarrow> error + tensor" where
  "tensor_sub x y =
     (if length x = length y then Inr (map2 (\<lambda>a b. a - b) x y) else Inl ShapeMismatch)"

definition tensor_div :: "tensor \<Rightarrow> real \<Rightarrow> error + tensor" where
  \<comment> \<open>A tensor divided by a Python float. Dividing by 0.0 raises nothing: it fills the
      tensor with inf and nan, which no real number stands for, so the model reports
      \<open>NonFinite\<close> there.\<close>
  "tensor_div x d = (if d = 0 then Inl NonFinite else Inr (map (\<lambda>v. v / d) x))"

definition getitem :: "'a list \<Rightarrow> int \<Rightarrow> error + 'a" where
  \<comment> \<open>\<^verbatim>\<open>xs[i]\<close> on a Python list: an index below zero counts from the end, and
      an index outside \<open>[-len, len)\<close> raises IndexError.\<close>
  "getitem xs i =
     (if 0 \<le> i \<and> i < int (length xs) then Inr (xs ! nat i)
      else if - int (length xs) \<le> i \<and> i < 0 then Inr (xs ! nat (int (length xs) + i))
      else Inl IndexError)"

definition np_arange :: "int \<Rightarrow> int \<Rightarrow> int \<Rightarrow> error + int list" where
  \<comment> \<open>\<^verbatim>\<open>np.arange(start, stop, step)\<close> on integers: \<open>ceil((stop - start) / step)\<close>
      values \<open>start + k * step\<close> (none when that count is negative); a zero step
      raises ZeroDivisionError.\<close>
  "np_arange start stop step =
     (if step = 0 then Inl ZeroDivisionError
      else Inr (map (\<lambda>k. start + int k * step) [0 ..< nat (- ((start - stop) div step))]))"

fun mapM_err :: "('a \<Rightarrow> error + 'b) \<Rightarrow> 'a list \<Rightarrow> error + 'b list" where
  \<comment> \<open>a list comprehension whose element expression may raise: the first error ends it\<close>
  "mapM_err f [] = Inr []"
| "mapM_err f (x # xs) =
     bind_err (f x) (\<lambda>y. bind_err (mapM_err f xs) (\<lambda>ys. Inr (y # ys)))"

definition astype_int32 :: "int \<Rightarrow> int" where
  \<comment> \<open>\<^verbatim>\<open>.astype("int32")\<close>: the value modulo \<open>2 ^ 32\<close>, read as a signed number\<close>
  "astype_int32 v = (v + 2 ^ 31) mod 2 ^ 32 - 2 ^ 31"

section \<open>The constant tables\<close>

definition TOKENS_UNCONDITIONAL :: "int list" where
  "TOKENS_UNCONDITIONAL = [
    49406, 49407, 49407, 49407, 49407, 49407, 49407, 49407, 49407, 49407, 49407,
    49407, 49407, 49407, 49407, 49407, 49407, 49407, 49407, 49407, 49407, 49407,
    49407, 49407, 49407, 49407, 49407, 49407, 49407, 49407, 49407, 49407, 49407,
    49407, 49407, 49407, 49407, 49407, 49407, 49407, 49407, 49407, 49407, 49407,
    49407, 49407, 49407, 49407, 49407, 49407, 49407, 49407, 49407, 49407, 49407,
    49407, 49407, 49407, 49407, 49407, 49407, 49407, 49407, 49407, 49407, 49407,
    49407, 49407, 49407, 49407, 49407, 49407, 49407, 49407, 49407, 49407, 49407
  ]"

text \<open>
  \<^verbatim>\<open>_ALPHAS_CUMPROD\<close>, the 1000 cumulative noise-retention coefficients, in the order
  of the source.
\<close>

definition ALPHAS_CUMPROD :: "real list" where
  "ALPHAS_CUMPROD = [
    0.99915, 0.998296, 0.9974381, 0.9965762, 0.99571025,
    0.9948404, 0.9939665, 0.9930887, 0.9922069, 0.9913211,
    0.9904313, 0.98953754, 0.9886398, 0.9877381, 0.9868324,
    0.98592263, 0.98500896, 0.9840913, 0.9831696, 0.982244,
    0.98131436, 0.9803808, 0.97944313, 0.97850156, 0.977556,
    0.9766064, 0.97565293, 0.9746954, 0.9737339, 0.9727684,
    0.97179896, 0.97082555, 0.96984816, 0.96886677, 0.9678814,
    0.96689206, 0.96589875, 0.9649015, 0.96390027, 0.9628951,
    0.9618859, 0.96087277, 0.95985574, 0.95883465, 0.9578097,
    0.95678073, 0.95574784, 0.954711, 0.95367026, 0.9526256,
    0.9515769, 0.95052433, 0.94946784, 0.94840735, 0.947343,
    0.94627476, 0.9452025, 0.9441264, 0.9430464, 0.9419625,
    0.9408747, 0.939783, 0.9386874, 0.93758786, 0.9364845,
    0.93537724, 0.9342661, 0.9331511, 0.9320323, 0.9309096,
    0.929783, 0.9286526, 0.9275183, 0.9263802, 0.92523825,
    0.92409253, 0.92294294, 0.9217895, 0.92063236, 0.9194713,
    0.9183065, 0.9171379, 0.91596556, 0.9147894, 0.9136095,
    0.91242576, 0.9112383, 0.9100471, 0.9088522, 0.9076535,
    0.9064511, 0.90524495, 0.9040351, 0.90282154, 0.9016043,
    0.90038335, 0.8991587, 0.8979304, 0.8966984, 0.89546275,
    0.89422345, 0.8929805, 0.89173394, 0.89048374, 0.88922995,
    0.8879725, 0.8867115, 0.88544685, 0.88417864, 0.88290685,
    0.8816315, 0.88035256, 0.8790701, 0.87778413, 0.8764946,
    0.8752016, 0.873905, 0.87260497, 0.8713014, 0.8699944,
    0.86868393, 0.86737, 0.8660526, 0.8647318, 0.86340755,
    0.8620799, 0.8607488, 0.85941434, 0.8580765, 0.8567353,
    0.8553907, 0.8540428, 0.85269153, 0.85133696, 0.84997904,
    0.84861785, 0.8472533, 0.8458856, 0.8445145, 0.84314024,
    0.84176266, 0.8403819, 0.8389979, 0.8376107, 0.8362203,
    0.83482677, 0.83343, 0.8320301, 0.8306271, 0.8292209,
    0.82781166, 0.82639927, 0.8249838, 0.82356524, 0.8221436,
    0.82071894, 0.81929123, 0.81786054, 0.8164268, 0.8149901,
    0.8135504, 0.81210774, 0.81066215, 0.8092136, 0.8077621,
    0.80630773, 0.80485046, 0.8033903, 0.80192727, 0.8004614,
    0.79899275, 0.79752123, 0.7960469, 0.7945698, 0.7930899,
    0.79160726, 0.7901219, 0.7886338, 0.787143, 0.7856495,
    0.7841533, 0.78265446, 0.78115296, 0.7796488, 0.77814204,
    0.7766327, 0.7751208, 0.7736063, 0.77208924, 0.7705697,
    0.7690476, 0.767523, 0.7659959, 0.7644664, 0.76293445,
    0.7614, 0.7598632, 0.75832397, 0.75678235, 0.75523835,
    0.75369203, 0.7521434, 0.75059247, 0.7490392, 0.7474837,
    0.7459259, 0.7443659, 0.74280363, 0.7412392, 0.7396726,
    0.7381038, 0.73653287, 0.7349598, 0.7333846, 0.73180735,
    0.730228, 0.7286466, 0.7270631, 0.7254777, 0.72389024,
    0.72230077, 0.7207094, 0.71911603, 0.7175208, 0.7159236,
    0.71432453, 0.7127236, 0.71112084, 0.7095162, 0.7079098,
    0.7063016, 0.70469165, 0.70307994, 0.7014665, 0.69985133,
    0.6982345, 0.696616, 0.6949958, 0.69337404, 0.69175065,
    0.69012564, 0.6884991, 0.68687093, 0.6852413, 0.68361014,
    0.6819775, 0.6803434, 0.67870784, 0.6770708, 0.6754324,
    0.6737926, 0.67215145, 0.670509, 0.66886514, 0.66722,
    0.6655736, 0.66392595, 0.662277, 0.6606269, 0.65897554,
    0.657323, 0.65566933, 0.6540145, 0.6523586, 0.6507016,
    0.6490435, 0.64738435, 0.6457241, 0.64406294, 0.6424008,
    0.64073765, 0.63907355, 0.63740855, 0.6357426, 0.6340758,
    0.6324082, 0.6307397, 0.6290704, 0.6274003, 0.6257294,
    0.62405777, 0.6223854, 0.62071234, 0.6190386, 0.61736417,
    0.6156891, 0.61401343, 0.6123372, 0.6106603, 0.6089829,
    0.607305, 0.6056265, 0.6039476, 0.60226816, 0.6005883,
    0.598908, 0.59722733, 0.5955463, 0.59386486, 0.5921831,
    0.59050107, 0.5888187, 0.5871361, 0.5854532, 0.5837701,
    0.5820868, 0.5804033, 0.5787197, 0.5770359, 0.575352,
    0.57366806, 0.571984, 0.5702999, 0.5686158, 0.56693166,
    0.56524754, 0.5635635, 0.5618795, 0.56019557, 0.5585118,
    0.5568281, 0.55514455, 0.5534612, 0.551778, 0.5500951,
    0.5484124, 0.54673, 0.5450478, 0.54336596, 0.54168445,
    0.54000324, 0.53832245, 0.5366421, 0.53496206, 0.5332825,
    0.53160346, 0.5299248, 0.52824676, 0.5265692, 0.52489215,
    0.5232157, 0.5215398, 0.51986456, 0.51818997, 0.51651603,
    0.51484275, 0.5131702, 0.5114983, 0.5098272, 0.50815684,
    0.5064873, 0.50481856, 0.50315064, 0.50148356, 0.4998174,
    0.4981521, 0.49648774, 0.49482432, 0.49316183, 0.49150035,
    0.48983985, 0.4881804, 0.486522, 0.48486462, 0.4832084,
    0.48155323, 0.4798992, 0.47824633, 0.47659463, 0.4749441,
    0.47329482, 0.4716468, 0.47, 0.46835446, 0.46671024,
    0.46506736, 0.4634258, 0.46178558, 0.46014675, 0.45850933,
    0.45687333, 0.45523876, 0.45360568, 0.45197406, 0.45034397,
    0.44871536, 0.44708833, 0.44546285, 0.44383895, 0.44221666,
    0.440596, 0.43897697, 0.43735963, 0.43574396, 0.43412998,
    0.43251774, 0.43090722, 0.4292985, 0.42769152, 0.42608637,
    0.42448303, 0.4228815, 0.42128187, 0.4196841, 0.41808826,
    0.4164943, 0.4149023, 0.41331223, 0.41172415, 0.41013804,
    0.40855396, 0.4069719, 0.4053919, 0.40381396, 0.4022381,
    0.40066436, 0.39909273, 0.39752322, 0.3959559, 0.39439073,
    0.39282778, 0.39126703, 0.3897085, 0.3881522, 0.3865982,
    0.38504648, 0.38349706, 0.38194993, 0.38040516, 0.37886274,
    0.37732267, 0.375785, 0.37424973, 0.37271687, 0.37118647,
    0.36965853, 0.36813304, 0.36661002, 0.36508954, 0.36357155,
    0.3620561, 0.36054322, 0.3590329, 0.35752517, 0.35602003,
    0.35451752, 0.35301763, 0.3515204, 0.3500258, 0.3485339,
    0.3470447, 0.34555823, 0.34407446, 0.34259343, 0.34111515,
    0.33963963, 0.33816692, 0.336697, 0.3352299, 0.33376563,
    0.3323042, 0.33084565, 0.32938993, 0.32793713, 0.3264872,
    0.32504022, 0.32359615, 0.32215503, 0.32071686, 0.31928164,
    0.31784943, 0.3164202, 0.314994, 0.3135708, 0.31215066,
    0.31073356, 0.3093195, 0.30790854, 0.30650064, 0.30509588,
    0.30369422, 0.30229566, 0.30090025, 0.299508, 0.2981189,
    0.29673296, 0.29535022, 0.2939707, 0.29259437, 0.29122123,
    0.28985137, 0.28848472, 0.28712133, 0.2857612, 0.28440437,
    0.2830508, 0.28170055, 0.2803536, 0.27900997, 0.27766964,
    0.27633268, 0.27499905, 0.2736688, 0.27234194, 0.27101842,
    0.2696983, 0.26838157, 0.26706827, 0.26575837, 0.26445192,
    0.26314887, 0.2618493, 0.26055318, 0.2592605, 0.25797132,
    0.2566856, 0.2554034, 0.25412467, 0.25284946, 0.25157773,
    0.2503096, 0.24904492, 0.24778382, 0.24652626, 0.24527225,
    0.2440218, 0.24277493, 0.24153163, 0.24029191, 0.23905578,
    0.23782326, 0.23659433, 0.23536903, 0.23414734, 0.23292927,
    0.23171483, 0.23050404, 0.22929688, 0.22809339, 0.22689353,
    0.22569734, 0.22450483, 0.22331597, 0.2221308, 0.22094932,
    0.21977153, 0.21859743, 0.21742703, 0.21626033, 0.21509734,
    0.21393807, 0.21278252, 0.21163069, 0.21048258, 0.20933822,
    0.20819758, 0.2070607, 0.20592754, 0.20479813, 0.20367248,
    0.20255059, 0.20143245, 0.20031808, 0.19920748, 0.19810064,
    0.19699757, 0.19589828, 0.19480278, 0.19371104, 0.1926231,
    0.19153893, 0.19045855, 0.18938197, 0.18830918, 0.18724018,
    0.18617497, 0.18511358, 0.18405597, 0.18300217, 0.18195218,
    0.18090598, 0.1798636, 0.17882504, 0.17779027, 0.1767593,
    0.17573217, 0.17470883, 0.1736893, 0.1726736, 0.1716617,
    0.17065361, 0.16964935, 0.1686489, 0.16765225, 0.16665943,
    0.16567042, 0.16468522, 0.16370384, 0.16272627, 0.16175252,
    0.16078258, 0.15981644, 0.15885411, 0.1578956, 0.15694089,
    0.15599, 0.15504292, 0.15409963, 0.15316014, 0.15222447,
    0.15129258, 0.1503645, 0.14944021, 0.14851972, 0.14760303,
    0.14669013, 0.14578101, 0.14487568, 0.14397413, 0.14307636,
    0.14218238, 0.14129217, 0.14040573, 0.13952307, 0.13864417,
    0.13776903, 0.13689767, 0.13603005, 0.13516618, 0.13430607,
    0.13344972, 0.1325971, 0.13174823, 0.1309031, 0.13006169,
    0.12922402, 0.12839006, 0.12755983, 0.12673332, 0.12591052,
    0.12509143, 0.12427604, 0.12346435, 0.12265636, 0.121852055,
    0.12105144, 0.1202545, 0.11946124, 0.11867165, 0.11788572,
    0.11710346, 0.11632485, 0.115549885, 0.11477857, 0.11401089,
    0.11324684, 0.11248643, 0.11172963, 0.11097645, 0.110226884,
    0.10948092, 0.10873855, 0.10799977, 0.107264586, 0.106532976,
    0.105804935, 0.10508047, 0.10435956, 0.1036422, 0.10292839,
    0.10221813, 0.1015114, 0.10080819, 0.100108504, 0.09941233,
    0.098719664, 0.0980305, 0.09734483, 0.09666264, 0.09598393,
    0.095308684, 0.09463691, 0.093968585, 0.09330372, 0.092642285,
    0.09198428, 0.09132971, 0.09067855, 0.090030804, 0.089386456,
    0.088745505, 0.088107936, 0.08747375, 0.08684293, 0.08621547,
    0.085591376, 0.084970616, 0.08435319, 0.0837391, 0.08312833,
    0.08252087, 0.08191671, 0.08131585, 0.08071827, 0.080123976,
    0.07953294, 0.078945175, 0.078360654, 0.077779375, 0.07720133,
    0.07662651, 0.07605491, 0.07548651, 0.07492131, 0.0743593,
    0.07380046, 0.073244795, 0.07269229, 0.07214294, 0.07159673,
    0.07105365, 0.070513695, 0.06997685, 0.069443114, 0.06891247,
    0.06838491, 0.067860425, 0.06733901, 0.066820644, 0.06630533,
    0.06579305, 0.0652838, 0.06477757, 0.06427433, 0.0637741,
    0.063276865, 0.06278259, 0.062291294, 0.061802953, 0.06131756,
    0.0608351, 0.060355574, 0.05987896, 0.059405252, 0.058934443,
    0.05846652, 0.058001474, 0.057539295, 0.05707997, 0.056623492,
    0.05616985, 0.05571903, 0.055271026, 0.054825824, 0.05438342,
    0.053943794, 0.053506944, 0.05307286, 0.052641522, 0.052212927,
    0.051787063, 0.051363923, 0.05094349, 0.050525755, 0.05011071,
    0.04969834, 0.049288645, 0.0488816, 0.048477206, 0.048075445,
    0.04767631, 0.047279786, 0.04688587, 0.046494544, 0.046105802,
    0.04571963, 0.04533602, 0.04495496, 0.04457644, 0.044200446,
    0.04382697, 0.043456003, 0.043087535, 0.042721547, 0.042358037,
    0.04199699, 0.041638397, 0.041282244, 0.040928524, 0.040577225,
    0.040228333, 0.039881844, 0.039537743, 0.039196018, 0.038856663,
    0.038519662, 0.038185004, 0.037852682, 0.037522685, 0.037195,
    0.036869615, 0.036546525, 0.036225714, 0.03590717, 0.035590887,
    0.035276853, 0.034965057, 0.034655485, 0.03434813, 0.03404298,
    0.033740025, 0.033439253, 0.033140652, 0.032844216, 0.03254993,
    0.032257784, 0.03196777, 0.031679876, 0.031394087, 0.031110398,
    0.030828796, 0.030549273, 0.030271813, 0.02999641, 0.029723052,
    0.029451728, 0.029182427, 0.02891514, 0.028649855, 0.028386563,
    0.028125253, 0.02786591, 0.027608532, 0.027353102, 0.027099613,
    0.026848052, 0.026598409, 0.026350675, 0.02610484, 0.02586089,
    0.02561882, 0.025378617, 0.025140269, 0.024903767, 0.0246691,
    0.02443626, 0.024205236, 0.023976017, 0.023748592, 0.023522953,
    0.023299087, 0.023076987, 0.022856642, 0.02263804, 0.022421172,
    0.022206029, 0.0219926, 0.021780876, 0.021570845, 0.021362498,
    0.021155827, 0.020950818, 0.020747466, 0.020545758, 0.020345684,
    0.020147236, 0.019950403, 0.019755175, 0.019561544, 0.019369498,
    0.019179028, 0.018990126, 0.01880278, 0.018616982, 0.018432721,
    0.01824999, 0.018068777, 0.017889075, 0.017710872, 0.01753416,
    0.017358929, 0.017185168, 0.017012872, 0.016842028, 0.016672628,
    0.016504662, 0.016338123, 0.016173, 0.016009282, 0.015846964,
    0.015686033, 0.015526483, 0.015368304, 0.015211486, 0.0150560215,
    0.014901901, 0.014749114, 0.014597654, 0.014447511, 0.0142986765,
    0.014151142, 0.014004898, 0.013859936, 0.013716248, 0.0135738235,
    0.013432656, 0.013292736, 0.013154055, 0.013016605, 0.012880377,
    0.012745362, 0.012611552, 0.012478939, 0.012347515, 0.01221727,
    0.012088198, 0.0119602885, 0.0118335355, 0.011707929, 0.011583461,
    0.011460125, 0.011337912, 0.011216813, 0.011096821, 0.010977928,
    0.0108601255, 0.010743406, 0.010627762, 0.0105131855, 0.010399668,
    0.010287202, 0.01017578, 0.010065395, 0.009956039, 0.009847702,
    0.009740381, 0.0096340645, 0.009528747, 0.009424419, 0.009321076,
    0.009218709, 0.00911731, 0.009016872, 0.008917389, 0.008818853,
    0.008721256, 0.008624591, 0.008528852, 0.00843403, 0.00834012,
    0.008247114, 0.008155004, 0.008063785, 0.007973449, 0.007883989,
    0.007795398, 0.0077076694, 0.0076207966, 0.0075347726, 0.007449591,
    0.0073652444, 0.007281727, 0.0071990318, 0.007117152, 0.0070360815,
    0.0069558136, 0.0068763415, 0.006797659, 0.00671976, 0.0066426382,
    0.0065662866, 0.006490699, 0.0064158696, 0.006341792, 0.00626846,
    0.0061958674, 0.0061240084, 0.0060528764, 0.0059824656, 0.0059127696,
    0.0058437833, 0.0057755, 0.0057079145, 0.00564102, 0.0055748112,
    0.0055092825, 0.005444428, 0.005380241, 0.0053167176, 0.005253851,
    0.005191636, 0.005130066, 0.0050691366, 0.0050088423, 0.0049491767,
    0.004890135, 0.0048317118, 0.004773902, 0.004716699, 0.0046600983
  ]"

section \<open>The sampler\<close>

text \<open>
  A \<^verbatim>\<open>Text2Image\<close> object. The tokenizer and the three networks are code outside
  the sampler; they are fields of the record, pure functions about which nothing is
  assumed. \<open>'ctx\<close> is the type of the text encoder's output. The sizes are natural
  numbers: \<^verbatim>\<open>__init__\<close> builds the networks and repeats the unconditional tokens
  with them, which fails for a negative size.
\<close>

record 'ctx text2image =
  img_height :: nat
  img_width :: nat
  batch_size :: nat
  tokenizer_encode :: "string \<Rightarrow> int list"
  text_encoder :: "int list list \<Rightarrow> int list list \<Rightarrow> 'ctx"
  diffusion_model :: "tensor \<Rightarrow> real list list \<Rightarrow> 'ctx \<Rightarrow> tensor"
  decoder :: "tensor \<Rightarrow> tensor"
  tokens_unconditional :: "int list list"

definition init_tokens_unconditional :: "nat \<Rightarrow> int list list" where
  \<comment> \<open>the last three lines of \<^verbatim>\<open>__init__\<close>\<close>
  "init_tokens_unconditional b = replicate b (map astype_int32 TOKENS_UNCONDITIONAL)"

definition tf_random_normal :: "(nat \<Rightarrow> real) \<Rightarrow> nat \<Rightarrow> tensor" where
  \<comment> \<open>\<^verbatim>\<open>tf.random.normal(shape)\<close> for a shape of \<open>n\<close> elements; the variates the
      generator hands out in this call are the argument \<open>draw\<close>.\<close>
  "tf_random_normal draw n = map draw [0 ..< n]"

definition timestep_embedding :: "int \<Rightarrow> int \<Rightarrow> real \<Rightarrow> error + real list list" where
  \<comment> \<open>\<open>t\<close> is the element of the one-element array that \<open>get_model_output\<close> passes,
      \<open>dim'\<close> is the parameter \<^verbatim>\<open>dim\<close>; the result is the \<open>(1, -1)\<close> reshape, a
      matrix of one row.\<close>
  "timestep_embedding t dim' max_period =
     (let half = dim' div 2 in
      bind_err (math_log max_period) (\<lambda>l.
        let freqs = map (\<lambda>i. exp (- l * real i / real_of_int half)) [0 ..< nat half];
            args = map (\<lambda>f. real_of_int t * f) freqs;
            embedding = map cos args @ map sin args
        in Inr [embedding]))"

definition guided :: "tensor \<Rightarrow> tensor \<Rightarrow> real \<Rightarrow> error + tensor" where
  \<comment> \<open>the expression \<open>get_model_output\<close> returns:
      \<^verbatim>\<open>unconditional_latent + unconditional_guidance_scale * (latent - unconditional_latent)\<close>\<close>
  "guided unconditional_latent latent unconditional_guidance_scale =
     bind_err (tensor_sub latent unconditional_latent) (\<lambda>d.
       tensor_add unconditional_latent (scalar_mul unconditional_guidance_scale d))"

definition get_model_output ::
  "'ctx text2image \<Rightarrow> tensor \<Rightarrow> int \<Rightarrow> 'ctx \<Rightarrow> 'ctx \<Rightarrow> real \<Rightarrow> error + tensor" where
  "get_model_output self latent t context unconditional_context unconditional_guidance_scale =
     bind_err (timestep_embedding t 320 10000) (\<lambda>t_emb1.
       let t_emb = concat (map (replicate (batch_size self)) t_emb1);
           unconditional_latent = diffusion_model self latent t_emb unconditional_context;
           latent' = diffusion_model self latent t_emb context
       in guided unconditional_latent latent' unconditional_guidance_scale)"

definition get_x_prev_and_pred_x0 ::
  "tensor \<Rightarrow> tensor \<Rightarrow> int \<Rightarrow> real \<Rightarrow> real \<Rightarrow> real \<Rightarrow> (nat \<Rightarrow> real) \<Rightarrow> error + tensor \<times> tensor" where
  \<comment> \<open>\<open>draw\<close> is what the random generator returns inside this call\<close>
  "get_x_prev_and_pred_x0 x e_t index a_t a_prev temperature draw =
     (let sigma_t = 0 in
      bind_err (math_sqrt (1 - a_t)) (\<lambda>sqrt_one_minus_at.
      bind_err (tensor_sub x (scalar_mul sqrt_one_minus_at e_t)) (\<lambda>numerator.
      bind_err (math_sqrt a_t) (\<lambda>sqrt_at.
      bind_err (tensor_div numerator sqrt_at) (\<lambda>pred_x0.
      bind_err (math_sqrt (1 - a_prev - sigma_t\<^sup>2)) (\<lambda>sqrt_dir.
        let dir_xt = scalar_mul sqrt_dir e_t;
            noise = scalar_mul temperature (scalar_mul sigma_t (tf_random_normal draw (length x)))
        in
      bind_err (math_sqrt a_prev) (\<lambda>sqrt_prev.
      bind_err (tensor_add (scalar_mul sqrt_prev pred_x0) dir_xt) (\<lambda>x_prev.
        Inr (x_prev, pred_x0)))))))))"

definition build_timesteps :: "int \<Rightarrow> error + int list" where
  \<comment> \<open>\<^verbatim>\<open>list(np.arange(1, 1000, 1000 // n_steps))\<close>; Python's \<open>//\<close> raises
      ZeroDivisionError for a zero divisor and otherwise rounds down, as \<open>div\<close> does.\<close>
  "build_timesteps n_steps =
     (if n_steps = 0 then Inl ZeroDivisionError else np_arange 1 1000 (1000 div n_steps))"

definition alpha_cumprod :: "int \<Rightarrow> error + real" where
  \<comment> \<open>\<^verbatim>\<open>_ALPHAS_CUMPROD[t]\<close>\<close>
  "alpha_cumprod t = getitem ALPHAS_CUMPROD t"

definition build_alphas :: "int list \<Rightarrow> error + real list" where
  \<comment> \<open>\<^verbatim>\<open>[_ALPHAS_CUMPROD[t] for t in timesteps]\<close>\<close>
  "build_alphas timesteps = mapM_err alpha_cumprod timesteps"

definition build_alphas_prev :: "real list \<Rightarrow> real list" where
  \<comment> \<open>\<^verbatim>\<open>[1.0] + alphas[:-1]\<close>\<close>
  "build_alphas_prev alphas = 1 # butlast alphas"

definition processing_order :: "int list \<Rightarrow> (nat \<times> int) list" where
  \<comment> \<open>\<^verbatim>\<open>list(enumerate(timesteps))[::-1]\<close>\<close>
  "processing_order timesteps = rev (enumerate 0 timesteps)"

definition encode_phrase :: "'ctx text2image \<Rightarrow> string \<Rightarrow> error + int list" where
  \<comment> \<open>the tokenizer call, the assertion and the padding that open \<open>generate\<close>\<close>
  "encode_phrase self prompt =
     (let inputs = tokenizer_encode self prompt in
      if length inputs < 77 then Inr (inputs @ replicate (77 - length inputs) 49407)
      else Inl AssertionError)"

fun denoise ::
  "'ctx text2image \<Rightarrow> 'ctx \<Rightarrow> 'ctx \<Rightarrow> real \<Rightarrow> real \<Rightarrow> real list \<Rightarrow> real list \<Rightarrow>
   (nat \<Rightarrow> nat \<Rightarrow> real) \<Rightarrow> nat \<Rightarrow> (nat \<times> int) list \<Rightarrow> tensor \<Rightarrow> error + tensor" where
  \<comment> \<open>The loop of \<open>generate\<close> over the remaining \<open>(index, timestep)\<close> pairs.
      \<open>draws k\<close> is the generator's output in its \<open>k\<close>-th call of the run.\<close>
  "denoise self context unconditional_context unconditional_guidance_scale temperature
       alphas alphas_prev draws k [] latent = Inr latent"
| "denoise self context unconditional_context unconditional_guidance_scale temperature
       alphas alphas_prev draws k ((index, timestep) # rest) latent =
     bind_err (get_model_output self latent timestep context unconditional_context
                 unconditional_guidance_scale) (\<lambda>e_t.
     bind_err (getitem alphas (int index)) (\<lambda>a_t.
     bind_err (getitem alphas_prev (int index)) (\<lambda>a_prev.
     bind_err (get_x_prev_and_pred_x0 latent e_t (int index) a_t a_prev temperature (draws k))
       (\<lambda>(x_prev, pred_x0).
     denoise self context unconditional_context unconditional_guidance_scale temperature
       alphas alphas_prev draws (Suc k) rest x_prev))))"

definition to_uint8 :: "real \<Rightarrow> nat" where
  \<comment> \<open>\<^verbatim>\<open>np.clip(v, 0, 255).astype("uint8")\<close> on one element: clipped, then truncated\<close>
  "to_uint8 v = nat \<lfloor>min 255 (max 0 v)\<rfloor>"

definition generate ::
  "'ctx text2image \<Rightarrow> string \<Rightarrow> int \<Rightarrow> real \<Rightarrow> real \<Rightarrow> (nat \<Rightarrow> nat \<Rightarrow> real) \<Rightarrow> error + nat list" where
  "generate self prompt n_steps unconditional_guidance_scale temperature draws =
     (let n_h = img_height self div 8;
          n_w = img_width self div 8
      in
      bind_err (encode_phrase self prompt) (\<lambda>phrase1.
        let pos_ids = replicate (batch_size self) (map int [0 ..< 77]);
            phrase = replicate (batch_size self) (map astype_int32 phrase1);
            context = text_encoder self phrase pos_ids;
            unconditional_context = text_encoder self (tokens_unconditional self) pos_ids
        in
      bind_err (build_timesteps n_steps) (\<lambda>timesteps.
      bind_err (build_alphas timesteps) (\<lambda>alphas.
        let alphas_prev = build_alphas_prev alphas;
            latent = tf_random_normal (draws 0) (batch_size self * n_h * n_w * 4)
        in
      bind_err (denoise self context unconditional_context unconditional_guidance_scale
                  temperature alphas alphas_prev draws 1 (processing_order timesteps) latent)
        (\<lambda>latent'.
        let decoded = decoder self latent'
        in Inr (map (\<lambda>v. to_uint8 ((v + 1) / 2 * 255)) decoded))))))"

section \<open>The specification's timestep embedder\<close>

text \<open>
  The embedder as the specification words it, to be compared with
  \<open>timestep_embedding\<close>: \<open>half\<close> frequencies \<open>exp (- ln max_period * i / half)\<close> for
  \<open>i\<close> in \<open>[0, half)\<close>, each multiplied by the timestep, the cosines followed by the
  sines.
\<close>

definition embed_spec :: "int \<Rightarrow> int \<Rightarrow> real \<Rightarrow> real list" where
  "embed_spec t dim' max_period =
     (let half = nat (dim' div 2);
          freqs = map (\<lambda>i. exp (- ln max_period * real i / real half)) [0 ..< half]
      in map (\<lambda>f. cos (real_of_int t * f)) freqs @ map (\<lambda>f. sin (real_of_int t * f)) freqs)"

section \<open>Float32 arithmetic\<close>

text \<open>
  Where a statement turns on rounding, the tensor arithmetic is read as what it is in the
  program: IEEE binary32, every operation rounded to nearest, ties to even. A Python
  float is a binary64 number, and it is rounded to binary32 when it meets a tensor.
  \<open>fl p emin emax v\<close> rounds the real \<open>v\<close> to the format with \<open>p\<close> significant bits and
  exponents from \<open>emin\<close> to \<open>emax\<close>. An element is \<open>Some v\<close> for the finite number \<open>v\<close>
  and \<open>None\<close> for an infinity or a NaN; the two zeros are not told apart (they compare
  equal). The sums, differences and products of the sampler keep an infinity or a NaN
  non-finite, so \<open>None\<close> is absorbing.
\<close>

definition pow2 :: "int \<Rightarrow> real" where
  "pow2 k = (if 0 \<le> k then 2 ^ nat k else 1 / 2 ^ nat (- k))"

definition round_half_even :: "real \<Rightarrow> int" where
  "round_half_even v =
     (let f = \<lfloor>v\<rfloor> in
      if v - of_int f < 1 / 2 then f
      else if 1 / 2 < v - of_int f then f + 1
      else if even f then f else f + 1)"

definition fl :: "nat \<Rightarrow> int \<Rightarrow> int \<Rightarrow> real \<Rightarrow> real option" where
  \<comment> \<open>the quantum is \<open>2 ^ (e - p + 1)\<close> for the exponent \<open>e\<close> of \<open>v\<close>, not below \<open>emin\<close>
      (gradual underflow); a result of magnitude \<open>2 ^ (emax + 1)\<close> is an overflow\<close>
  "fl p emin emax v =
     (if v = 0 then Some 0
      else
        let e = max emin \<lfloor>log 2 \<bar>v\<bar>\<rfloor>;
            q = pow2 (e - int p + 1);
            r = of_int (round_half_even (v / q)) * q
        in if \<bar>r\<bar> < pow2 (emax + 1) then Some r else None)"

definition fl32 :: "real \<Rightarrow> real option" where
  "fl32 = fl 24 (- 126) 127"

definition fl64 :: "real \<Rightarrow> real option" where
  "fl64 = fl 53 (- 1022) 1023"

definition f32_add :: "real option \<Rightarrow> real option \<Rightarrow> real option" where
  "f32_add a b =
     (case a of None \<Rightarrow> None | Some x \<Rightarrow> (case b of None \<Rightarrow> None | Some y \<Rightarrow> fl32 (x + y)))"

definition f32_sub :: "real option \<Rightarrow> real option \<Rightarrow> real option" where
  "f32_sub a b =
     (case a of None \<Rightarrow> None | Some x \<Rightarrow> (case b of None \<Rightarrow> None | Some y \<Rightarrow> fl32 (x - y)))"

definition f32_mul :: "real option \<Rightarrow> real option \<Rightarrow> real option" where
  "f32_mul a b =
     (case a of None \<Rightarrow> None | Some x \<Rightarrow> (case b of None \<Rightarrow> None | Some y \<Rightarrow> fl32 (x * y)))"

definition f32_div :: "real option \<Rightarrow> real option \<Rightarrow> real option" where
  \<comment> \<open>Division by zero gives an infinity or a NaN. A divisor that is not finite does not
      occur: the sampler divides by square roots of numbers that are at most 1.\<close>
  "f32_div a b =
     (case a of None \<Rightarrow> None
      | Some x \<Rightarrow> (case b of None \<Rightarrow> None
                  | Some y \<Rightarrow> if y = 0 then None else fl32 (x / y)))"

definition f64_sub :: "real \<Rightarrow> real \<Rightarrow> error + real" where
  \<comment> \<open>the difference of two Python floats; it overflows for no pair that the sampler
      subtracts, and the model reports \<open>NonFinite\<close> if it did\<close>
  "f64_sub a b = (case fl64 (a - b) of None \<Rightarrow> Inl NonFinite | Some r \<Rightarrow> Inr r)"

definition math_sqrt_f64 :: "real \<Rightarrow> error + real" where
  \<comment> \<open>\<^verbatim>\<open>math.sqrt\<close> on a Python float: correctly rounded, ValueError below zero\<close>
  "math_sqrt_f64 v =
     (if v < 0 then Inl ValueError
      else case fl64 (sqrt v) of None \<Rightarrow> Inl NonFinite | Some r \<Rightarrow> Inr r)"

definition scalar_mul_f32 :: "real \<Rightarrow> real option list \<Rightarrow> real option list" where
  \<comment> \<open>a Python float times a float32 tensor: the scalar is rounded to float32 first\<close>
  "scalar_mul_f32 k x = map (\<lambda>v. f32_mul (fl32 k) v) x"

definition tensor_add_f32 :: "real option list \<Rightarrow> real option list \<Rightarrow> error + real option list" where
  "tensor_add_f32 x y =
     (if length x = length y then Inr (map2 f32_add x y) else Inl ShapeMismatch)"

definition tensor_sub_f32 :: "real option list \<Rightarrow> real option list \<Rightarrow> error + real option list" where
  "tensor_sub_f32 x y =
     (if length x = length y then Inr (map2 f32_sub x y) else Inl ShapeMismatch)"

definition tensor_div_f32 :: "real option list \<Rightarrow> real \<Rightarrow> real option list" where
  \<comment> \<open>a float32 tensor divided by a Python float\<close>
  "tensor_div_f32 x d = map (\<lambda>v. f32_div v (fl32 d)) x"

definition guided_f32 :: "real option list \<Rightarrow> real option list \<Rightarrow> real \<Rightarrow> error + real option list" where
  \<comment> \<open>the expression \<open>get_model_output\<close> returns, on float32 tensors\<close>
  "guided_f32 unconditional_latent latent unconditional_guidance_scale =
     bind_err (tensor_sub_f32 latent unconditional_latent) (\<lambda>d.
       tensor_add_f32 unconditional_latent (scalar_mul_f32 unconditional_guidance_scale d))"

definition get_x_prev_and_pred_x0_f32 ::
  "real option list \<Rightarrow> real option list \<Rightarrow> int \<Rightarrow> real \<Rightarrow> real \<Rightarrow> real \<Rightarrow> (nat \<Rightarrow> real) \<Rightarrow>
   error + real option list \<times> real option list" where
  \<comment> \<open>\<open>get_x_prev_and_pred_x0\<close> on float32 tensors, \<open>a_t\<close> and \<open>a_prev\<close> Python floats\<close>
  "get_x_prev_and_pred_x0_f32 x e_t index a_t a_prev temperature draw =
     (let sigma_t = 0 in
      bind_err (f64_sub 1 a_t) (\<lambda>one_minus_at.
      bind_err (math_sqrt_f64 one_minus_at) (\<lambda>sqrt_one_minus_at.
      bind_err (tensor_sub_f32 x (scalar_mul_f32 sqrt_one_minus_at e_t)) (\<lambda>numerator.
      bind_err (math_sqrt_f64 a_t) (\<lambda>sqrt_at.
        let pred_x0 = tensor_div_f32 numerator sqrt_at in
      bind_err (f64_sub 1 a_prev) (\<lambda>one_minus_prev.
      bind_err (f64_sub one_minus_prev (sigma_t\<^sup>2)) (\<lambda>radicand.
      bind_err (math_sqrt_f64 radicand) (\<lambda>sqrt_dir.
        let dir_xt = scalar_mul_f32 sqrt_dir e_t;
            noise = scalar_mul_f32 temperature
                      (scalar_mul_f32 sigma_t (map fl32 (tf_random_normal draw (length x))))
        in
      bind_err (math_sqrt_f64 a_prev) (\<lambda>sqrt_prev.
      bind_err (tensor_add_f32 (scalar_mul_f32 sqrt_prev pred_x0) dir_xt) (\<lambda>x_prev.
        Inr (x_prev, pred_x0)))))))))))"

section \<open>Helper lemmas\<close>

lemma bind_err_Inr: "bind_err (Inr v) f = f v"
  by (simp add: bind_err_def)

lemma bind_err_Inl: "bind_err (Inl e) f = Inl e"
  by (simp add: bind_err_def)

lemma math_sqrt_nonneg: "0 \<le> v \<Longrightarrow> math_sqrt v = Inr (sqrt v)"
  by (simp add: math_sqrt_def)

lemma math_log_pos: "0 < v \<Longrightarrow> math_log v = Inr (ln v)"
  by (simp add: math_log_def)

lemma sqrt_16_25: "sqrt (16 / 25) = 4 / 5"
  by (rule real_sqrt_unique) (simp_all add: power2_eq_square)

lemma sqrt_9_25: "sqrt (9 / 25) = 3 / 5"
  by (rule real_sqrt_unique) (simp_all add: power2_eq_square)

lemma map2_replicate:
  "length xs = n \<Longrightarrow> map2 f xs (replicate n c) = map (\<lambda>v. f v c) xs"
  by (induction xs arbitrary: n) auto

section \<open>The DDIM step\<close>

lemma step_closed_form:
  assumes "0 < a_t" "a_t \<le> 1" "0 < a_prev" "a_prev \<le> 1" "length e_t = length x"
  shows "get_x_prev_and_pred_x0 x e_t index a_t a_prev temperature draw =
           Inr (map2 (\<lambda>p e. sqrt a_prev * p + sqrt (1 - a_prev) * e)
                  (map2 (\<lambda>v e. (v - sqrt (1 - a_t) * e) / sqrt a_t) x e_t) e_t,
                map2 (\<lambda>v e. (v - sqrt (1 - a_t) * e) / sqrt a_t) x e_t)"
proof -
  have s: "sqrt a_t \<noteq> 0" using assms(1) by simp
  show ?thesis
    using assms s
    by (simp add: get_x_prev_and_pred_x0_def math_sqrt_nonneg bind_err_Inr tensor_sub_def
        tensor_add_def tensor_div_def scalar_mul_def Let_def zip_map2 zip_map1 map_zip_map
        map_zip_map2 split_def)
qed

text \<open>
  Claim C1. For a latent \<open>x\<close> and a noise estimate \<open>e_t\<close> of the same shape, and
  \<open>a_t\<close>, \<open>a_prev\<close> in \<open>(0, 1]\<close>, the step returns the pair \<open>(x_prev, pred_x0)\<close> whose
  elements are \<open>pred_x0 = (x - sqrt (1 - a_t) * e_t) / sqrt a_t\<close> and
  \<open>x_prev = sqrt a_prev * pred_x0 + sqrt (1 - a_prev) * e_t\<close>, in this order of
  operations.
\<close>

theorem step_formula:
  assumes "0 < a_t" "a_t \<le> 1" "0 < a_prev" "a_prev \<le> 1" "length e_t = length x"
  shows "get_x_prev_and_pred_x0 x e_t index a_t a_prev temperature draw =
           Inr (map2 (\<lambda>p e. sqrt a_prev * p + sqrt (1 - a_prev) * e)
                  (map2 (\<lambda>v e. (v - sqrt (1 - a_t) * e) / sqrt a_t) x e_t) e_t,
                map2 (\<lambda>v e. (v - sqrt (1 - a_t) * e) / sqrt a_t) x e_t)"
  using assms by (rule step_closed_form)

theorem step_formula_witness:
  "(0::real) < 16 / 25 \<and> (16 / 25 :: real) \<le> 1 \<and> (0::real) < 9 / 25 \<and> (9 / 25 :: real) \<le> 1 \<and>
   length [5, 0 :: real] = length [1, 2 :: real] \<and>
   get_x_prev_and_pred_x0 [1, 2] [5, 0] 0 (16 / 25) (9 / 25) 1 (\<lambda>j. 0) =
     Inr ([5 / 2, 3 / 2], [- 5 / 2, 5 / 2])"
  using step_formula [of "16 / 25" "9 / 25" "[5, 0]" "[1, 2]" 0 1 "\<lambda>j. 0"]
  by (simp add: sqrt_16_25 sqrt_9_25)

text \<open>
  Claim C10. The pair the step returns does not depend on \<open>index\<close>, on \<open>temperature\<close>
  or on the Gaussian sample drawn inside the call: two calls that agree on
  \<open>x\<close>, \<open>e_t\<close>, \<open>a_t\<close> and \<open>a_prev\<close> return the same result, whatever the other
  three are. (\<open>sigma_t\<close> is 0 and \<open>noise\<close> is computed but never added.)
\<close>

theorem step_ignores_index_temperature_noise:
  "get_x_prev_and_pred_x0 x e_t index a_t a_prev temperature draw =
   get_x_prev_and_pred_x0 x e_t index' a_t a_prev temperature' draw'"
  by (simp add: get_x_prev_and_pred_x0_def Let_def)

theorem step_ignores_index_temperature_noise_witness:
  "get_x_prev_and_pred_x0 [1, 2] [5, 0] 0 (16 / 25) (9 / 25) 1 (\<lambda>j. 0) =
   get_x_prev_and_pred_x0 [1, 2] [5, 0] 7 (16 / 25) (9 / 25) 3 (\<lambda>j. real j)"
  using step_ignores_index_temperature_noise
          [of "[1, 2]" "[5, 0]" 0 "16 / 25" "9 / 25" 1 "\<lambda>j. 0" 7 3 "\<lambda>j. real j"]
  by simp

section \<open>Timestep embedding and guidance\<close>

lemma timestep_embedding_eq:
  assumes "0 < max_period" "0 \<le> dim'"
  shows "timestep_embedding t dim' max_period = Inr [embed_spec t dim' max_period]"
  using assms
  by (simp add: timestep_embedding_def embed_spec_def math_log_pos bind_err_Inr Let_def comp_def)

lemma length_embed_spec:
  "0 \<le> dim' \<Longrightarrow> even dim' \<Longrightarrow> length (embed_spec t dim' max_period) = nat dim'"
  by (auto simp: embed_spec_def Let_def elim!: evenE)

text \<open>
  Claim C9. For an integer timestep \<open>t\<close>, an even positive \<open>dim\<close> and
  \<open>max_period > 1\<close>, \<open>timestep_embedding\<close> returns (as its one row) a vector of length
  \<open>dim\<close>: the cosines of \<open>t * freqs\<close> followed by the sines of \<open>t * freqs\<close>, where
  \<open>freqs ! i = exp (- ln max_period * i / half)\<close> for \<open>i < half = dim div 2\<close>. Being a
  function of \<open>(t, dim, max_period)\<close> alone, it is pure and deterministic.
\<close>

theorem timestep_embedding_spec:
  assumes "0 < dim'" "even dim'" "1 < max_period"
  shows "timestep_embedding t dim' max_period = Inr [embed_spec t dim' max_period] \<and>
         length (embed_spec t dim' max_period) = nat dim' \<and>
         (\<forall>i < nat (dim' div 2).
            embed_spec t dim' max_period ! i =
              cos (real_of_int t * exp (- ln max_period * real i / real_of_int (dim' div 2))) \<and>
            embed_spec t dim' max_period ! (nat (dim' div 2) + i) =
              sin (real_of_int t * exp (- ln max_period * real i / real_of_int (dim' div 2))))"
proof -
  have a: "timestep_embedding t dim' max_period = Inr [embed_spec t dim' max_period]"
    using assms by (simp add: timestep_embedding_eq)
  have b: "length (embed_spec t dim' max_period) = nat dim'"
    using assms by (simp add: length_embed_spec)
  have c: "\<forall>i < nat (dim' div 2).
            embed_spec t dim' max_period ! i =
              cos (real_of_int t * exp (- ln max_period * real i / real_of_int (dim' div 2))) \<and>
            embed_spec t dim' max_period ! (nat (dim' div 2) + i) =
              sin (real_of_int t * exp (- ln max_period * real i / real_of_int (dim' div 2)))"
    using assms by (auto simp: embed_spec_def Let_def nth_append)
  from a b c show ?thesis by blast
qed

theorem timestep_embedding_spec_witness:
  "(0::int) < 2 \<and> even (2::int) \<and> (1::real) < 10000 \<and>
   timestep_embedding 1 2 10000 = Inr [[cos 1, sin 1]]"
  using timestep_embedding_spec [of 2 10000 1]
  by (simp add: embed_spec_def)

lemma guided_elementwise:
  "length u = length c \<Longrightarrow>
   map2 (\<lambda>a b. a + b) u (map (\<lambda>v. s * v) (map2 (\<lambda>a b. a - b) c u)) =
   map2 (\<lambda>a b. a + s * (b - a)) u (c :: real list)"
  by (induction u c rule: list_induct2) simp_all

lemma guided_eq:
  "length u = length c \<Longrightarrow> guided u c s = Inr (map2 (\<lambda>a b. a + s * (b - a)) u c)"
  by (simp add: guided_def tensor_sub_def tensor_add_def scalar_mul_def bind_err_Inr
        guided_elementwise del: map_map)

lemma timestep_embedding_default:
  "timestep_embedding t 320 10000 = Inr [embed_spec t 320 10000]"
  by (simp add: timestep_embedding_eq)

lemma get_model_output_eq:
  "get_model_output self latent t context unconditional_context scale =
     guided
       (diffusion_model self latent
          (replicate (batch_size self) (embed_spec t 320 10000)) unconditional_context)
       (diffusion_model self latent
          (replicate (batch_size self) (embed_spec t 320 10000)) context)
       scale"
  by (simp add: get_model_output_def timestep_embedding_default bind_err_Inr Let_def)

section \<open>Rounding\<close>

lemma pow2_powr: "pow2 k = 2 powr (of_int k)"
  by (simp add: pow2_def powr_real_of_int inverse_eq_divide)

lemma pow2_pos: "0 < pow2 k"
  by (simp add: pow2_powr)

lemma pow2_mono: "j \<le> k \<Longrightarrow> pow2 j \<le> pow2 k"
  by (simp add: pow2_powr)

lemma pow2_add: "pow2 (j + k) = pow2 j * pow2 k"
  by (simp add: pow2_powr powr_add)

lemma pow2_nat: "0 \<le> k \<Longrightarrow> pow2 k = of_int (2 ^ nat k)"
  by (simp add: pow2_def)

lemma floor_log2_eq:
  assumes "pow2 e \<le> \<bar>v\<bar>" "\<bar>v\<bar> < pow2 (e + 1)"
  shows "\<lfloor>log 2 \<bar>v\<bar>\<rfloor> = e"
proof (rule floor_unique)
  have v: "0 < \<bar>v\<bar>" using assms(1) pow2_pos [of e] by linarith
  have "log 2 (pow2 e) \<le> log 2 \<bar>v\<bar>"
    using assms(1) v pow2_pos [of e] by simp
  then show "of_int e \<le> log 2 \<bar>v\<bar>" by (simp add: pow2_powr)
  have "log 2 \<bar>v\<bar> < log 2 (pow2 (e + 1))"
    using assms(2) v pow2_pos [of "e + 1"] by simp
  then show "log 2 \<bar>v\<bar> < of_int e + 1" by (simp add: pow2_powr)
qed

lemma pow2_floor_log2_le:
  assumes "v \<noteq> 0"
  shows "pow2 \<lfloor>log 2 \<bar>v\<bar>\<rfloor> \<le> \<bar>v\<bar>"
proof -
  have "2 powr (of_int \<lfloor>log 2 \<bar>v\<bar>\<rfloor>) \<le> 2 powr (log 2 \<bar>v\<bar>)"
    by simp
  also have "\<dots> = \<bar>v\<bar>" using assms by simp
  finally show ?thesis by (simp add: pow2_powr)
qed

lemma round_half_even_near: "\<bar>of_int (round_half_even v) - v\<bar> \<le> 1 / 2"
proof -
  have "of_int \<lfloor>v\<rfloor> \<le> v" "v < of_int \<lfloor>v\<rfloor> + 1" by linarith+
  then show ?thesis
    by (simp add: round_half_even_def Let_def abs_le_iff)
qed

lemma round_half_even_nonneg: "0 \<le> v \<Longrightarrow> 0 \<le> round_half_even v"
  by (simp add: round_half_even_def Let_def)

lemma round_half_even_int: "round_half_even (of_int n) = n"
  by (simp add: round_half_even_def)

lemma fl_eval:
  assumes "v \<noteq> 0" "pow2 e' \<le> \<bar>v\<bar>" "\<bar>v\<bar> < pow2 (e' + 1)"
    and "q = pow2 (max emin e' - int p + 1)"
    and "n = round_half_even (v / q)"
    and "\<bar>of_int n * q\<bar> < pow2 (emax + 1)"
  shows "fl p emin emax v = Some (of_int n * q)"
  using assms floor_log2_eq [OF assms(2,3)]
  by (simp add: fl_def Let_def)

lemma fl_bounded:
  assumes "1 \<le> p" "emin \<le> 0" "\<bar>v\<bar> \<le> B" "1 \<le> B" "2 * B < pow2 (emax + 1)"
  shows "\<exists>r. fl p emin emax v = Some r \<and> \<bar>r\<bar> \<le> 2 * B \<and> (0 \<le> v \<longrightarrow> 0 \<le> r)"
proof (cases "v = 0")
  case True
  then show ?thesis using assms(4) by (simp add: fl_def)
next
  case False
  define e where "e = max emin \<lfloor>log 2 \<bar>v\<bar>\<rfloor>"
  define q where "q = pow2 (e - int p + 1)"
  define n where "n = round_half_even (v / q)"
  define r where "r = of_int n * q"
  have q: "0 < q" unfolding q_def by (rule pow2_pos)
  have "pow2 emin \<le> pow2 0" using assms(2) by (rule pow2_mono)
  then have "pow2 emin \<le> B" using assms(4) by (simp add: pow2_def)
  moreover have "pow2 \<lfloor>log 2 \<bar>v\<bar>\<rfloor> \<le> B"
    using pow2_floor_log2_le [OF False] assms(3) by linarith
  ultimately have "pow2 e \<le> B" unfolding e_def max_def by simp
  moreover have "q \<le> pow2 e" unfolding q_def using assms(1) by (intro pow2_mono) simp
  ultimately have qB: "q \<le> B" by linarith
  have "\<bar>of_int n - v / q\<bar> \<le> 1 / 2" unfolding n_def by (rule round_half_even_near)
  then have "\<bar>of_int n - v / q\<bar> * q \<le> 1 / 2 * q" using q by (intro mult_right_mono) simp_all
  moreover have "\<bar>of_int n - v / q\<bar> * q = \<bar>r - v\<bar>"
  proof -
    have "\<bar>of_int n - v / q\<bar> * q = \<bar>(of_int n - v / q) * q\<bar>" using q by (simp add: abs_mult)
    also have "(of_int n - v / q) * q = r - v" using q by (simp add: r_def algebra_simps)
    finally show ?thesis .
  qed
  ultimately have near: "\<bar>r - v\<bar> \<le> q / 2" by simp
  then have rB: "\<bar>r\<bar> \<le> 2 * B" using qB assms(3) by linarith
  then have fin: "\<bar>r\<bar> < pow2 (emax + 1)" using assms(5) by linarith
  have nn: "0 \<le> r" if "0 \<le> v"
  proof -
    have "0 \<le> v / q" using that q by simp
    then have "0 \<le> n" unfolding n_def by (rule round_half_even_nonneg)
    then show ?thesis using q by (simp add: r_def)
  qed
  have "fl p emin emax v = Some r"
    using False fin by (simp add: fl_def Let_def r_def n_def q_def e_def)
  then show ?thesis using rB nn by blast
qed

lemma fl_exact:
  assumes "v = of_int n * pow2 k" "\<bar>n\<bar> < 2 ^ p"
    and "emin - int p + 1 \<le> k" "k \<le> emax - int p + 1"
  shows "fl p emin emax v = Some v"
proof (cases "v = 0")
  case True
  then show ?thesis by (simp add: fl_def)
next
  case False
  define e where "e = max emin \<lfloor>log 2 \<bar>v\<bar>\<rfloor>"
  define q where "q = pow2 (e - int p + 1)"
  have q: "0 < q" unfolding q_def by (rule pow2_pos)
  have np: "\<bar>real_of_int n\<bar> < pow2 (int p)"
  proof -
    have "real_of_int \<bar>n\<bar> < real_of_int (2 ^ p)" using assms(2) by (simp only: of_int_less_iff)
    then show ?thesis by (simp add: pow2_def)
  qed
  have vlt: "\<bar>v\<bar> < pow2 (int p + k)"
  proof -
    have "\<bar>v\<bar> = \<bar>real_of_int n\<bar> * pow2 k"
      using pow2_pos [of k] by (simp add: assms(1) abs_mult)
    also have "\<dots> < pow2 (int p) * pow2 k"
      using np pow2_pos [of k] by (intro mult_strict_right_mono)
    finally show ?thesis by (simp add: pow2_add)
  qed
  have "pow2 \<lfloor>log 2 \<bar>v\<bar>\<rfloor> < pow2 (int p + k)"
    using pow2_floor_log2_le [OF False] vlt by linarith
  then have "\<lfloor>log 2 \<bar>v\<bar>\<rfloor> < int p + k"
    using pow2_mono [of "int p + k" "\<lfloor>log 2 \<bar>v\<bar>\<rfloor>"] by linarith
  then have ek: "0 \<le> k - (e - int p + 1)" unfolding e_def using assms(3) by simp
  define j where "j = k - (e - int p + 1)"
  have "pow2 k = pow2 j * q" unfolding q_def j_def by (simp flip: pow2_add)
  then have vq: "v / q = of_int n * pow2 j" using q by (simp add: assms(1))
  have ni: "of_int n * pow2 j = real_of_int (n * 2 ^ nat j)" using ek by (simp add: pow2_nat j_def)
  have "round_half_even (v / q) = n * 2 ^ nat j"
    unfolding vq ni by (rule round_half_even_int)
  then have "of_int (round_half_even (v / q)) * q = (v / q) * q"
    by (simp only: vq ni)
  also have "\<dots> = v" using q by simp
  finally have r: "of_int (round_half_even (v / q)) * q = v" .
  have "pow2 (int p + k) \<le> pow2 (emax + 1)" using assms(4) by (intro pow2_mono) simp
  then have "\<bar>v\<bar> < pow2 (emax + 1)" using vlt by linarith
  then show ?thesis
    using False r by (simp add: fl_def Let_def flip: q_def e_def)
qed

lemma fl32_exact:
  "v = of_int n * pow2 k \<Longrightarrow> \<bar>n\<bar> < 2 ^ 24 \<Longrightarrow> - 149 \<le> k \<Longrightarrow> k \<le> 104 \<Longrightarrow> fl32 v = Some v"
  unfolding fl32_def by (rule fl_exact) simp_all

lemma fl64_exact:
  "v = of_int n * pow2 k \<Longrightarrow> \<bar>n\<bar> < 2 ^ 53 \<Longrightarrow> - 1074 \<le> k \<Longrightarrow> k \<le> 971 \<Longrightarrow> fl64 v = Some v"
  unfolding fl64_def by (rule fl_exact) simp_all

lemma fl32_0: "fl32 0 = Some 0"
  by (simp add: fl32_def fl_def)

lemma fl32_1: "fl32 1 = Some 1"
  by (rule fl32_exact [where n = 1 and k = 0]) (simp_all add: pow2_def)

section \<open>Guidance in float32\<close>

lemma map2_eq_map_fst:
  assumes "length xs = length ys" "\<And>i. i < length xs \<Longrightarrow> f (xs ! i) (ys ! i) = g (xs ! i)"
  shows "map2 f xs ys = map g xs"
  using assms by (intro nth_equalityI) simp_all

lemma map2_eq_map_snd:
  assumes "length xs = length ys" "\<And>i. i < length xs \<Longrightarrow> f (xs ! i) (ys ! i) = g (ys ! i)"
  shows "map2 f xs ys = map g ys"
  using assms by (intro nth_equalityI) simp_all

lemma guided_f32_elementwise:
  "length u = length c \<Longrightarrow>
   map2 f32_add (map Some u)
     (map (\<lambda>v. f32_mul k v) (map2 f32_sub (map Some c) (map Some u))) =
   map2 (\<lambda>a b. f32_add (Some a) (f32_mul k (fl32 (b - a)))) u c"
  by (induction u c rule: list_induct2) (simp_all add: f32_sub_def)

lemma guided_f32_eq:
  "length u = length c \<Longrightarrow>
   guided_f32 (map Some u) (map Some c) s =
     Inr (map2 (\<lambda>a b. f32_add (Some a) (f32_mul (fl32 s) (fl32 (b - a)))) u c)"
  by (simp add: guided_f32_def tensor_sub_f32_def tensor_add_f32_def scalar_mul_f32_def
        bind_err_Inr guided_f32_elementwise del: map_map)

lemma guided_f32_zero:
  assumes "length u = length c" "\<forall>v \<in> set u. fl32 v = Some v"
    and "\<forall>i < length u. fl32 (c ! i - u ! i) \<noteq> None"
  shows "guided_f32 (map Some u) (map Some c) 0 = Inr (map Some u)"
proof -
  have "map2 (\<lambda>a b. f32_add (Some a) (f32_mul (fl32 0) (fl32 (b - a)))) u c = map Some u"
  proof (rule map2_eq_map_fst [OF assms(1)])
    fix i assume i: "i < length u"
    then obtain d where d: "fl32 (c ! i - u ! i) = Some d" using assms(3) by auto
    have a: "fl32 (u ! i) = Some (u ! i)" using assms(2) i by simp
    show "f32_add (Some (u ! i)) (f32_mul (fl32 0) (fl32 (c ! i - u ! i))) = Some (u ! i)"
      by (simp add: d fl32_0 f32_mul_def f32_add_def a)
  qed
  then show ?thesis by (simp add: guided_f32_eq [OF assms(1)])
qed

lemma guided_f32_one:
  assumes "length u = length c" "\<forall>v \<in> set c. fl32 v = Some v"
    and "\<forall>i < length u. fl32 (c ! i - u ! i) = Some (c ! i - u ! i)"
  shows "guided_f32 (map Some u) (map Some c) 1 = Inr (map Some c)"
proof -
  have "map2 (\<lambda>a b. f32_add (Some a) (f32_mul (fl32 1) (fl32 (b - a)))) u c = map Some c"
  proof (rule map2_eq_map_snd [OF assms(1)])
    fix i assume i: "i < length u"
    then have d: "fl32 (c ! i - u ! i) = Some (c ! i - u ! i)" using assms(3) by simp
    have a: "fl32 (c ! i) = Some (c ! i)" using assms(1,2) i by simp
    show "f32_add (Some (u ! i)) (f32_mul (fl32 1) (fl32 (c ! i - u ! i))) = Some (c ! i)"
      by (simp add: d fl32_1 f32_mul_def f32_add_def a)
  qed
  then show ?thesis by (simp add: guided_f32_eq [OF assms(1)])
qed

lemma guided_scale_one: "length u = length c \<Longrightarrow> guided u c 1 = Inr c"
proof -
  assume l: "length u = length c"
  have "map2 (\<lambda>a b. a + 1 * (b - a)) u c = map snd (zip u c)"
    by (simp add: split_def)
  then have "map2 (\<lambda>a b. a + 1 * (b - a)) u c = c" using l by simp
  then show ?thesis by (simp only: guided_eq [OF l])
qed

lemma guided_scale_zero: "length u = length c \<Longrightarrow> guided u c 0 = Inr u"
proof -
  assume l: "length u = length c"
  have "map2 (\<lambda>a b. a + 0 * (b - a)) u c = map fst (zip u c)"
    by (simp add: split_def)
  then have "map2 (\<lambda>a b. a + 0 * (b - a)) u c = u" using l by simp
  then show ?thesis by (simp only: guided_eq [OF l])
qed

lemma fl32_round_1e8: "fl32 (- 99999999) = Some (- 100000000)"
proof -
  have "fl 24 (- 126) 127 (- 99999999) = Some (of_int (- 12500000) * 8)"
    by (rule fl_eval [where e' = 26]) (simp_all add: pow2_def round_half_even_def)
  then show ?thesis by (simp add: fl32_def)
qed

lemma fl32_1e8: "fl32 100000000 = Some 100000000"
  by (rule fl32_exact [where n = 12500000 and k = 3]) (simp_all add: pow2_def)

lemma fl32_neg_1e8: "fl32 (- 100000000) = Some (- 100000000)"
  by (rule fl32_exact [where n = "- 12500000" and k = 3]) (simp_all add: pow2_def)

text \<open>
  Claim C4 as stated fails in the float32 arithmetic of the code: for the float32
  numbers \<open>u = 100000000\<close> and \<open>c = 1\<close>, \<open>c - u\<close> rounds to \<open>- 100000000\<close> and the
  combination at scale 1 returns 0, not \<open>c\<close>.
\<close>

theorem guidance_scale_one_counterexample:
  "fl32 100000000 = Some 100000000 \<and> fl32 1 = Some 1 \<and>
   guided_f32 [Some 100000000] [Some 1] 1 = Inr [Some 0] \<and>
   guided_f32 [Some 100000000] [Some 1] 1 \<noteq> Inr [Some 1]"
  by (simp add: guided_f32_def tensor_sub_f32_def tensor_add_f32_def scalar_mul_f32_def
        bind_err_Inr f32_sub_def f32_mul_def f32_add_def fl32_1 fl32_1e8 fl32_round_1e8
        fl32_neg_1e8 fl32_0)

text \<open>
  Claim C4, as the code has it. For float32 tensors \<open>u\<close> and \<open>c\<close> of one shape and
  every scalar \<open>scale\<close>, the combination that \<open>get_model_output\<close> returns is
  \<open>u + scale * (c - u)\<close>, element by element, each of the three operations rounded to
  float32 (and exactly that value in real arithmetic). With \<open>scale = 0\<close> it returns \<open>u\<close>
  wherever \<open>c - u\<close> does not overflow. With \<open>scale = 1\<close> it returns \<open>c\<close> in real
  arithmetic, and in float32 wherever \<open>c - u\<close> is a float32 number.
\<close>

theorem guidance_combination_rounded:
  assumes "length u = length c"
    and "\<forall>v \<in> set u. fl32 v = Some v"
    and "\<forall>v \<in> set c. fl32 v = Some v"
  shows "guided_f32 (map Some u) (map Some c) scale =
           Inr (map2 (\<lambda>a b. f32_add (Some a) (f32_mul (fl32 scale) (fl32 (b - a)))) u c) \<and>
         ((\<forall>i < length u. fl32 (c ! i - u ! i) \<noteq> None) \<longrightarrow>
            guided_f32 (map Some u) (map Some c) 0 = Inr (map Some u)) \<and>
         ((\<forall>i < length u. fl32 (c ! i - u ! i) = Some (c ! i - u ! i)) \<longrightarrow>
            guided_f32 (map Some u) (map Some c) 1 = Inr (map Some c)) \<and>
         guided u c scale = Inr (map2 (\<lambda>a b. a + scale * (b - a)) u c) \<and>
         guided u c 1 = Inr c \<and> guided u c 0 = Inr u \<and>
         (\<exists>e. timestep_embedding t 320 10000 = Inr e \<and>
            get_model_output self latent t context unconditional_context scale =
              guided
                (diffusion_model self latent (concat (map (replicate (batch_size self)) e))
                   unconditional_context)
                (diffusion_model self latent (concat (map (replicate (batch_size self)) e))
                   context)
                scale)"
proof -
  have a: "guided_f32 (map Some u) (map Some c) scale =
           Inr (map2 (\<lambda>a b. f32_add (Some a) (f32_mul (fl32 scale) (fl32 (b - a)))) u c)"
    by (rule guided_f32_eq [OF assms(1)])
  have b: "(\<forall>i < length u. fl32 (c ! i - u ! i) \<noteq> None) \<longrightarrow>
            guided_f32 (map Some u) (map Some c) 0 = Inr (map Some u)"
    using guided_f32_zero [OF assms(1,2)] by blast
  have c: "(\<forall>i < length u. fl32 (c ! i - u ! i) = Some (c ! i - u ! i)) \<longrightarrow>
            guided_f32 (map Some u) (map Some c) 1 = Inr (map Some c)"
    using guided_f32_one [OF assms(1,3)] by blast
  have d: "guided u c scale = Inr (map2 (\<lambda>a b. a + scale * (b - a)) u c)"
    by (rule guided_eq [OF assms(1)])
  have e: "guided u c 1 = Inr c" by (rule guided_scale_one [OF assms(1)])
  have f: "guided u c 0 = Inr u" by (rule guided_scale_zero [OF assms(1)])
  have g: "\<exists>e. timestep_embedding t 320 10000 = Inr e \<and>
            get_model_output self latent t context unconditional_context scale =
              guided
                (diffusion_model self latent (concat (map (replicate (batch_size self)) e))
                   unconditional_context)
                (diffusion_model self latent (concat (map (replicate (batch_size self)) e))
                   context)
                scale"
    by (simp add: get_model_output_def timestep_embedding_default bind_err_Inr Let_def)
  from a b c d e f g show ?thesis by blast
qed

lemma fl32_numeral: "\<bar>numeral w :: int\<bar> < 2 ^ 24 \<Longrightarrow> fl32 (numeral w) = Some (numeral w)"
  by (rule fl32_exact [where n = "numeral w" and k = 0]) (simp_all add: pow2_def)

lemma fl32_numeral_half:
  "\<bar>numeral w :: int\<bar> < 2 ^ 24 \<Longrightarrow> fl32 (numeral w / 2) = Some (numeral w / 2)"
  by (rule fl32_exact [where n = "numeral w" and k = "- 1"]) (simp_all add: pow2_def)

theorem guidance_combination_rounded_witness:
  "length [1, 2 :: real] = length [3, 6 :: real] \<and>
   fl32 1 = Some 1 \<and> fl32 2 = Some 2 \<and> fl32 3 = Some 3 \<and> fl32 6 = Some 6 \<and>
   guided_f32 [Some 1, Some 2] [Some 3, Some 6] (15 / 2) = Inr [Some 16, Some 32] \<and>
   guided_f32 [Some 1, Some 2] [Some 3, Some 6] 1 = Inr [Some 3, Some 6] \<and>
   guided_f32 [Some 1, Some 2] [Some 3, Some 6] 0 = Inr [Some 1, Some 2]"
  using guidance_combination_rounded
          [of "[1, 2]" "[3, 6]" "15 / 2" 5
              "\<lparr>img_height = 8, img_width = 8, batch_size = 1,
                tokenizer_encode = (\<lambda>p. []), text_encoder = (\<lambda>p q. ()),
                diffusion_model = (\<lambda>l e k. l), decoder = (\<lambda>l. l),
                tokens_unconditional = []\<rparr>" "[]" "()" "()"]
  by (simp add: fl32_1 fl32_0 fl32_numeral fl32_numeral_half f32_add_def f32_mul_def
        less_Suc_eq)

section \<open>The DDIM step in float32\<close>

lemma fl64_bounded:
  assumes "\<bar>v\<bar> \<le> 2"
  shows "\<exists>r. fl64 v = Some r \<and> \<bar>r\<bar> \<le> 4 \<and> (0 \<le> v \<longrightarrow> 0 \<le> r)"
proof -
  have "\<exists>r. fl 53 (- 1022) 1023 v = Some r \<and> \<bar>r\<bar> \<le> 2 * 2 \<and> (0 \<le> v \<longrightarrow> 0 \<le> r)"
    using assms by (intro fl_bounded) (simp_all add: pow2_def)
  then show ?thesis by (simp add: fl64_def)
qed

lemma fl32_finite:
  assumes "\<bar>v\<bar> \<le> 4"
  shows "\<exists>r. fl32 v = Some r"
proof -
  have "\<exists>r. fl 24 (- 126) 127 v = Some r \<and> \<bar>r\<bar> \<le> 2 * 4 \<and> (0 \<le> v \<longrightarrow> 0 \<le> r)"
    using assms by (intro fl_bounded) (simp_all add: pow2_def)
  then show ?thesis by (auto simp: fl32_def)
qed

lemma f64_sub_unit:
  assumes "0 \<le> a" "a \<le> 1"
  shows "\<exists>d. f64_sub 1 a = Inr d \<and> 0 \<le> d \<and> d \<le> 4"
proof -
  have "\<bar>1 - a\<bar> \<le> 2" using assms by simp
  from fl64_bounded [OF this] obtain r where "fl64 (1 - a) = Some r" "\<bar>r\<bar> \<le> 4" "0 \<le> r"
    using assms by auto
  then show ?thesis by (simp add: f64_sub_def)
qed

lemma f64_sub_zero:
  assumes "0 \<le> d" "d \<le> 2"
  shows "\<exists>r. f64_sub d 0 = Inr r \<and> 0 \<le> r \<and> r \<le> 4"
proof -
  have "\<bar>d - 0\<bar> \<le> 2" using assms by simp
  from fl64_bounded [OF this] obtain r where "fl64 (d - 0) = Some r" "\<bar>r\<bar> \<le> 4" "0 \<le> r"
    using assms by auto
  then show ?thesis by (simp add: f64_sub_def)
qed

lemma math_sqrt_f64_bounded:
  assumes "0 \<le> v" "v \<le> 4"
  shows "\<exists>r. math_sqrt_f64 v = Inr r \<and> 0 \<le> r \<and> r \<le> 4"
proof -
  have "sqrt v \<le> sqrt 4" using assms(2) by (simp only: real_sqrt_le_iff)
  then have "\<bar>sqrt v\<bar> \<le> 2" using assms(1) by simp
  from fl64_bounded [OF this] obtain r where "fl64 (sqrt v) = Some r" "\<bar>r\<bar> \<le> 4" "0 \<le> r"
    using assms(1) by auto
  then show ?thesis using assms(1) by (simp add: math_sqrt_f64_def)
qed

lemma scalar_mul_f32_zeros:
  assumes "fl32 k = Some k'"
  shows "scalar_mul_f32 k (replicate n (Some 0)) = replicate n (Some 0)"
  by (simp add: scalar_mul_f32_def assms f32_mul_def fl32_0)

lemma tensor_sub_f32_zeros:
  assumes "\<forall>v \<in> set x. fl32 v = Some v"
  shows "tensor_sub_f32 (map Some x) (replicate (length x) (Some 0)) = Inr (map Some x)"
proof -
  have "map2 f32_sub (map Some x) (replicate (length x) (Some 0)) =
        map (\<lambda>v. f32_sub v (Some 0)) (map Some x)"
    by (rule map2_replicate) simp
  also have "\<dots> = map Some x" using assms by (simp add: f32_sub_def)
  finally show ?thesis by (simp add: tensor_sub_f32_def)
qed

lemma tensor_add_f32_zeros:
  "length y = n \<Longrightarrow>
   tensor_add_f32 y (replicate n (Some 0)) = Inr (map (\<lambda>v. f32_add v (Some 0)) y)"
  by (simp add: tensor_add_f32_def map2_replicate)

lemma step_f32_zero_noise:
  assumes "0 < a" "a \<le> 1" "\<forall>v \<in> set x. fl32 v = Some v"
  shows "\<exists>s. math_sqrt_f64 a = Inr s \<and>
           get_x_prev_and_pred_x0_f32 (map Some x) (replicate (length x) (Some 0)) index a a
             temperature draw =
           Inr (map (\<lambda>v. f32_add (f32_mul (fl32 s) (f32_div (Some v) (fl32 s))) (Some 0)) x,
                map (\<lambda>v. f32_div (Some v) (fl32 s)) x)"
proof -
  obtain d where d: "f64_sub 1 a = Inr d" "0 \<le> d" "d \<le> 4"
    using f64_sub_unit [of a] assms(1,2) by auto
  have d2: "d \<le> 2"
  proof -
    have "\<bar>1 - a\<bar> \<le> 1" using assms(1,2) by simp
    then have "\<exists>r. fl 53 (- 1022) 1023 (1 - a) = Some r \<and> \<bar>r\<bar> \<le> 2 * 1 \<and> (0 \<le> 1 - a \<longrightarrow> 0 \<le> r)"
      by (intro fl_bounded) (simp_all add: pow2_def)
    then show ?thesis using d(1) by (auto simp: f64_sub_def fl64_def split: option.splits)
  qed
  obtain s1 where s1: "math_sqrt_f64 d = Inr s1" "0 \<le> s1" "s1 \<le> 4"
    using math_sqrt_f64_bounded [OF d(2,3)] by auto
  obtain s1' where s1': "fl32 s1 = Some s1'"
    using fl32_finite [of s1] s1(2,3) by auto
  obtain s where s: "math_sqrt_f64 a = Inr s" "0 \<le> s" "s \<le> 4"
    using math_sqrt_f64_bounded [of a] assms(1,2) by auto
  obtain r where r: "f64_sub d 0 = Inr r" "0 \<le> r" "r \<le> 4"
    using f64_sub_zero [OF d(2) d2] by auto
  obtain s2 where s2: "math_sqrt_f64 r = Inr s2" "0 \<le> s2" "s2 \<le> 4"
    using math_sqrt_f64_bounded [OF r(2,3)] by auto
  obtain s2' where s2': "fl32 s2 = Some s2'"
    using fl32_finite [of s2] s2(2,3) by auto
  have z1: "scalar_mul_f32 s1 (replicate (length x) (Some 0)) = replicate (length x) (Some 0)"
    by (rule scalar_mul_f32_zeros [OF s1'])
  have z2: "scalar_mul_f32 s2 (replicate (length x) (Some 0)) = replicate (length x) (Some 0)"
    by (rule scalar_mul_f32_zeros [OF s2'])
  have sub: "tensor_sub_f32 (map Some x) (replicate (length x) (Some 0)) = Inr (map Some x)"
    by (rule tensor_sub_f32_zeros [OF assms(3)])
  have pred: "tensor_div_f32 (map Some x) s = map (\<lambda>v. f32_div (Some v) (fl32 s)) x"
    by (simp add: tensor_div_f32_def comp_def)
  have add: "tensor_add_f32 (scalar_mul_f32 s (map (\<lambda>v. f32_div (Some v) (fl32 s)) x))
               (replicate (length x) (Some 0)) =
             Inr (map (\<lambda>v. f32_add (f32_mul (fl32 s) (f32_div (Some v) (fl32 s))) (Some 0)) x)"
  proof -
    have "tensor_add_f32 (scalar_mul_f32 s (map (\<lambda>v. f32_div (Some v) (fl32 s)) x))
               (replicate (length x) (Some 0)) =
          Inr (map (\<lambda>v. f32_add v (Some 0))
                 (scalar_mul_f32 s (map (\<lambda>v. f32_div (Some v) (fl32 s)) x)))"
      by (rule tensor_add_f32_zeros) (simp add: scalar_mul_f32_def)
    then show ?thesis by (simp add: scalar_mul_f32_def comp_def)
  qed
  have "get_x_prev_and_pred_x0_f32 (map Some x) (replicate (length x) (Some 0)) index a a
             temperature draw =
           Inr (map (\<lambda>v. f32_add (f32_mul (fl32 s) (f32_div (Some v) (fl32 s))) (Some 0)) x,
                map (\<lambda>v. f32_div (Some v) (fl32 s)) x)"
    unfolding get_x_prev_and_pred_x0_f32_def Let_def
    by (simp add: d(1) s1(1) s(1) r(1) s2(1) bind_err_Inr z1 z2 sub pred add)
  with s(1) show ?thesis by blast
qed

lemma step_f32_representable_quotient:
  assumes "fl32 s = Some s'" "s' \<noteq> 0"
    and "\<forall>v \<in> set x. fl32 v = Some v" "\<forall>v \<in> set x. fl32 (v / s') = Some (v / s')"
  shows "map (\<lambda>v. f32_add (f32_mul (fl32 s) (f32_div (Some v) (fl32 s))) (Some 0)) x = map Some x"
    and "map (\<lambda>v. f32_div (Some v) (fl32 s)) x = map (\<lambda>v. Some (v / s')) x"
proof -
  show "map (\<lambda>v. f32_add (f32_mul (fl32 s) (f32_div (Some v) (fl32 s))) (Some 0)) x = map Some x"
  proof (rule map_cong [OF refl])
    fix v assume v: "v \<in> set x"
    have q: "fl32 (v / s') = Some (v / s')" using assms(4) v by simp
    have "s' * (v / s') = v" using assms(2) by simp
    then show "f32_add (f32_mul (fl32 s) (f32_div (Some v) (fl32 s))) (Some 0) = Some v"
      using assms(3) v by (simp add: assms(1,2) f32_div_def f32_mul_def f32_add_def q)
  qed
  show "map (\<lambda>v. f32_div (Some v) (fl32 s)) x = map (\<lambda>v. Some (v / s')) x"
    using assms(4) by (simp add: assms(1,2) f32_div_def)
qed

lemma step_exact_zero_noise:
  assumes "0 < a" "a \<le> 1"
  shows "get_x_prev_and_pred_x0 x (replicate (length x) 0) index a a temperature draw =
           Inr (x, map (\<lambda>v. v / sqrt a) x)"
proof -
  have s: "sqrt a \<noteq> 0" using assms(1) by simp
  define e_t :: "real list" where "e_t = replicate (length x) 0"
  have "get_x_prev_and_pred_x0 x e_t index a a temperature draw =
           Inr (map2 (\<lambda>p e. sqrt a * p + sqrt (1 - a) * e)
                  (map2 (\<lambda>v e. (v - sqrt (1 - a) * e) / sqrt a) x e_t) e_t,
                map2 (\<lambda>v e. (v - sqrt (1 - a) * e) / sqrt a) x e_t)"
    using step_closed_form [of a a e_t x] assms by (simp add: e_t_def)
  moreover have "map2 (\<lambda>v e. (v - sqrt (1 - a) * e) / sqrt a) x e_t = map (\<lambda>v. v / sqrt a) x"
    unfolding e_t_def by (simp add: map2_replicate)
  moreover have "map2 (\<lambda>p e. sqrt a * p + sqrt (1 - a) * e) (map (\<lambda>v. v / sqrt a) x) e_t = x"
  proof -
    have "map2 (\<lambda>p e. sqrt a * p + sqrt (1 - a) * e) (map (\<lambda>v. v / sqrt a) x) e_t =
          map (\<lambda>p. sqrt a * p + sqrt (1 - a) * 0) (map (\<lambda>v. v / sqrt a) x)"
      unfolding e_t_def by (rule map2_replicate) simp
    also have "\<dots> = x" using s by (simp add: map_idI)
    finally show ?thesis .
  qed
  ultimately show ?thesis by (simp add: e_t_def)
qed

lemma sqrt_9_16: "sqrt (9 / 16) = 3 / 4"
  by (rule real_sqrt_unique) (simp_all add: power2_eq_square)

lemma sqrt_1_4: "sqrt (1 / 4) = 1 / 2"
  by (rule real_sqrt_unique) (simp_all add: power2_eq_square)

lemma math_sqrt_f64_9_16: "math_sqrt_f64 (9 / 16) = Inr (3 / 4)"
proof -
  have "fl64 (3 / 4) = Some (3 / 4)"
    by (rule fl64_exact [where n = 3 and k = "- 2"]) (simp_all add: pow2_def)
  then show ?thesis by (simp add: math_sqrt_f64_def sqrt_9_16)
qed

lemma math_sqrt_f64_1_4: "math_sqrt_f64 (1 / 4) = Inr (1 / 2)"
proof -
  have "fl64 (1 / 2) = Some (1 / 2)"
    by (rule fl64_exact [where n = 1 and k = "- 1"]) (simp_all add: pow2_def)
  then show ?thesis by (simp add: math_sqrt_f64_def sqrt_1_4)
qed

lemma fl32_3_4: "fl32 (3 / 4) = Some (3 / 4)"
  by (rule fl32_exact [where n = 3 and k = "- 2"]) (simp_all add: pow2_def)

lemma fl32_1_2: "fl32 (1 / 2) = Some (1 / 2)"
  by (rule fl32_exact [where n = 1 and k = "- 1"]) (simp_all add: pow2_def)

lemma fl32_x0: "fl32 (12582913 / 8388608) = Some (12582913 / 8388608)"
  by (rule fl32_exact [where n = 12582913 and k = "- 23"]) (simp_all add: pow2_def)

lemma fl32_x1: "fl32 (6291457 / 4194304) = Some (6291457 / 4194304)"
  by (rule fl32_exact [where n = 6291457 and k = "- 22"]) (simp_all add: pow2_def)

lemma fl32_quotient: "fl32 (12582913 / 6291456) = Some (8388609 / 4194304)"
proof -
  have "fl 24 (- 126) 127 (12582913 / 6291456) = Some (of_int 8388609 * (1 / 4194304))"
    by (rule fl_eval [where e' = 1]) (simp_all add: pow2_def round_half_even_def)
  then show ?thesis by (simp add: fl32_def)
qed

lemma fl32_product: "fl32 (25165827 / 16777216) = Some (6291457 / 4194304)"
proof -
  have "fl 24 (- 126) 127 (25165827 / 16777216) = Some (of_int 12582914 * (1 / 8388608))"
    by (rule fl_eval [where e' = 0]) (simp_all add: pow2_def round_half_even_def)
  then show ?thesis by (simp add: fl32_def)
qed

text \<open>
  Claim C6 as stated fails in the float32 arithmetic of the code. For
  \<open>a_t = a_prev = 0.5625\<close>, whose square root 0.75 is exact, and the float32 number
  \<open>x = 12582913 / 2 ^ 23\<close> (1.5000001192092896), \<open>x / 0.75\<close> rounds to
  \<open>8388609 / 2 ^ 22\<close>, and 0.75 times that lies halfway between two float32 numbers and
  rounds to \<open>12582914 / 2 ^ 23\<close> (1.500000238418579): \<open>x_prev\<close> is not \<open>x\<close>.
\<close>

theorem step_zero_noise_counterexample:
  "fl32 (12582913 / 8388608) = Some (12582913 / 8388608) \<and>
   get_x_prev_and_pred_x0_f32 [Some (12582913 / 8388608)] [Some 0] 0 (9 / 16) (9 / 16) 1 (\<lambda>j. 0) =
     Inr ([Some (6291457 / 4194304)], [Some (8388609 / 4194304)]) \<and>
   (6291457 / 4194304 :: real) \<noteq> 12582913 / 8388608"
proof -
  have x: "\<forall>v \<in> set [12582913 / 8388608 :: real]. fl32 v = Some v"
    by (simp add: fl32_x0)
  have "0 < (9 / 16 :: real)" "(9 / 16 :: real) \<le> 1" by simp_all
  from step_f32_zero_noise [OF this x, of 0 1 "\<lambda>j. 0"]
  obtain s where s: "math_sqrt_f64 (9 / 16) = Inr s"
    and r: "get_x_prev_and_pred_x0_f32 [Some (12582913 / 8388608)] [Some 0] 0 (9 / 16) (9 / 16) 1
              (\<lambda>j. 0) =
            Inr ([f32_add (f32_mul (fl32 s) (f32_div (Some (12582913 / 8388608)) (fl32 s)))
                    (Some 0)],
                 [f32_div (Some (12582913 / 8388608)) (fl32 s)])"
    by auto
  have "s = 3 / 4" using s by (simp add: math_sqrt_f64_9_16)
  with r
  have "get_x_prev_and_pred_x0_f32 [Some (12582913 / 8388608)] [Some 0] 0 (9 / 16) (9 / 16) 1 (\<lambda>j. 0) =
          Inr ([f32_add (f32_mul (fl32 (3 / 4)) (f32_div (Some (12582913 / 8388608)) (fl32 (3 / 4))))
                  (Some 0)],
               [f32_div (Some (12582913 / 8388608)) (fl32 (3 / 4))])"
    by (simp only:)
  then have "get_x_prev_and_pred_x0_f32 [Some (12582913 / 8388608)] [Some 0] 0 (9 / 16) (9 / 16) 1 (\<lambda>j. 0) =
     Inr ([Some (6291457 / 4194304)], [Some (8388609 / 4194304)])"
    by (simp add: fl32_3_4 f32_div_def f32_mul_def f32_add_def fl32_quotient fl32_product fl32_x1)
  then show ?thesis by (simp add: fl32_x0)
qed

text \<open>
  Claim C6, as the code has it. For a float32 latent \<open>x\<close>, \<open>a_t = a_prev\<close> in
  \<open>(0, 1]\<close> and a noise estimate that is zero everywhere, the step returns
  \<open>x_prev = s * (x / s)\<close> and \<open>pred_x0 = x / s\<close>, element by element, where \<open>s\<close> is
  \<^verbatim>\<open>math.sqrt(a_t)\<close> rounded to float32 and the division and the product are each
  rounded to float32. \<open>x_prev\<close> is \<open>x\<close> in real arithmetic, and in float32 wherever
  \<open>s\<close> is not zero and \<open>x / s\<close> is a float32 number.
\<close>

theorem step_zero_noise_rounded:
  assumes "0 < a" "a \<le> 1" "\<forall>v \<in> set x. fl32 v = Some v"
  shows "\<exists>s. math_sqrt_f64 a = Inr s \<and>
           get_x_prev_and_pred_x0_f32 (map Some x) (replicate (length x) (Some 0)) index a a
             temperature draw =
           Inr (map (\<lambda>v. f32_add (f32_mul (fl32 s) (f32_div (Some v) (fl32 s))) (Some 0)) x,
                map (\<lambda>v. f32_div (Some v) (fl32 s)) x) \<and>
           (\<forall>s'. fl32 s = Some s' \<and> s' \<noteq> 0 \<and> (\<forall>v \<in> set x. fl32 (v / s') = Some (v / s')) \<longrightarrow>
              get_x_prev_and_pred_x0_f32 (map Some x) (replicate (length x) (Some 0)) index a a
                temperature draw =
              Inr (map Some x, map (\<lambda>v. Some (v / s')) x)) \<and>
           get_x_prev_and_pred_x0 x (replicate (length x) 0) index a a temperature draw =
             Inr (x, map (\<lambda>v. v / sqrt a) x)"
proof -
  obtain s where s: "math_sqrt_f64 a = Inr s"
    and r: "get_x_prev_and_pred_x0_f32 (map Some x) (replicate (length x) (Some 0)) index a a
             temperature draw =
           Inr (map (\<lambda>v. f32_add (f32_mul (fl32 s) (f32_div (Some v) (fl32 s))) (Some 0)) x,
                map (\<lambda>v. f32_div (Some v) (fl32 s)) x)"
    using step_f32_zero_noise [OF assms] by blast
  have q: "\<forall>s'. fl32 s = Some s' \<and> s' \<noteq> 0 \<and> (\<forall>v \<in> set x. fl32 (v / s') = Some (v / s')) \<longrightarrow>
              get_x_prev_and_pred_x0_f32 (map Some x) (replicate (length x) (Some 0)) index a a
                temperature draw =
              Inr (map Some x, map (\<lambda>v. Some (v / s')) x)"
  proof (intro allI impI)
    fix s'
    assume h: "fl32 s = Some s' \<and> s' \<noteq> 0 \<and> (\<forall>v \<in> set x. fl32 (v / s') = Some (v / s'))"
    then have h1: "fl32 s = Some s'" and h2: "s' \<noteq> 0"
      and h3: "\<forall>v \<in> set x. fl32 (v / s') = Some (v / s')" by simp_all
    show "get_x_prev_and_pred_x0_f32 (map Some x) (replicate (length x) (Some 0)) index a a
                temperature draw =
              Inr (map Some x, map (\<lambda>v. Some (v / s')) x)"
      unfolding r
      by (simp only: step_f32_representable_quotient [OF h1 h2 assms(3) h3])
  qed
  have e: "get_x_prev_and_pred_x0 x (replicate (length x) 0) index a a temperature draw =
             Inr (x, map (\<lambda>v. v / sqrt a) x)"
    by (rule step_exact_zero_noise [OF assms(1,2)])
  from s r q e show ?thesis by blast
qed

theorem step_zero_noise_rounded_witness:
  "(0::real) < 1 / 4 \<and> (1 / 4 :: real) \<le> 1 \<and> fl32 1 = Some 1 \<and> fl32 3 = Some 3 \<and>
   math_sqrt_f64 (1 / 4) = Inr (1 / 2) \<and> fl32 (1 / 2) = Some (1 / 2) \<and>
   fl32 (1 / (1 / 2)) = Some (1 / (1 / 2)) \<and> fl32 (3 / (1 / 2)) = Some (3 / (1 / 2)) \<and>
   get_x_prev_and_pred_x0_f32 [Some 1, Some 3] [Some 0, Some 0] 2 (1 / 4) (1 / 4) 1 (\<lambda>j. 0) =
     Inr ([Some 1, Some 3], [Some 2, Some 6])"
proof -
  have h: "(0::real) < 1 / 4" "(1 / 4 :: real) \<le> 1" "\<forall>v \<in> set [1, 3 :: real]. fl32 v = Some v"
    by (simp_all add: fl32_1 fl32_numeral)
  from step_zero_noise_rounded [OF h, of 2 1 "\<lambda>j. 0"]
  obtain s where s: "math_sqrt_f64 (1 / 4) = Inr s"
    and q: "\<forall>s'. fl32 s = Some s' \<and> s' \<noteq> 0 \<and>
               (\<forall>v \<in> set [1, 3 :: real]. fl32 (v / s') = Some (v / s')) \<longrightarrow>
              get_x_prev_and_pred_x0_f32 (map Some [1, 3]) (replicate (length [1, 3 :: real]) (Some 0))
                2 (1 / 4) (1 / 4) 1 (\<lambda>j. 0) =
              Inr (map Some [1, 3], map (\<lambda>v. Some (v / s')) [1, 3])"
    by blast
  have s2: "s = 1 / 2" using s by (simp add: math_sqrt_f64_1_4)
  have d: "fl32 (1 / (1 / 2)) = Some (1 / (1 / 2))" "fl32 (3 / (1 / 2)) = Some (3 / (1 / 2))"
    by (simp_all add: fl32_numeral)
  have "fl32 s = Some (1 / 2) \<and> (1 / 2 :: real) \<noteq> 0 \<and>
        (\<forall>v \<in> set [1, 3 :: real]. fl32 (v / (1 / 2)) = Some (v / (1 / 2)))"
    using d by (simp add: s2 fl32_1_2)
  with q have "get_x_prev_and_pred_x0_f32 (map Some [1, 3]) (replicate (length [1, 3 :: real]) (Some 0))
                2 (1 / 4) (1 / 4) 1 (\<lambda>j. 0) =
              Inr (map Some [1, 3], map (\<lambda>v. Some (v / (1 / 2))) [1, 3])"
    by blast
  then have "get_x_prev_and_pred_x0_f32 [Some 1, Some 3] [Some 0, Some 0] 2 (1 / 4) (1 / 4) 1 (\<lambda>j. 0) =
     Inr ([Some 1, Some 3], [Some 2, Some 6])"
    by (simp add: numeral_2_eq_2)
  then show ?thesis
    using d by (simp add: fl32_1 fl32_numeral math_sqrt_f64_1_4 fl32_1_2)
qed

section \<open>The timestep schedule\<close>

lemma arange_count:
  assumes "0 < s"
  shows "int k < - ((1 - 1000) div s) \<longleftrightarrow> 1 + int k * s < 1000"
proof -
  have "\<lfloor>real_of_int (- 999) / real_of_int s\<rfloor> = (- 999) div s"
    by (rule floor_divide_of_int_eq)
  then have "- ((1 - 1000) div s) = \<lceil>999 / real_of_int s\<rceil>"
    by (simp add: ceiling_def)
  moreover have "int k < \<lceil>999 / real_of_int s\<rceil> \<longleftrightarrow> real k < 999 / real_of_int s"
    by (simp add: less_ceiling_iff)
  moreover have "real k < 999 / real_of_int s \<longleftrightarrow> real k * real_of_int s < 999"
    using assms by (simp add: pos_less_divide_eq)
  moreover have "real k * real_of_int s < 999 \<longleftrightarrow> int k * s < 999"
  proof -
    have "real k * real_of_int s = real_of_int (int k * s)" by simp
    then show ?thesis by (metis of_int_less_numeral_iff)
  qed
  ultimately show ?thesis by simp
qed

lemma stride_pos: "1 \<le> n \<Longrightarrow> n \<le> 1000 \<Longrightarrow> 0 < (1000::int) div n"
  by (simp add: pos_imp_zdiv_pos_iff)

lemma build_timesteps_eq:
  assumes "1 \<le> n" "n \<le> 1000"
  shows "build_timesteps n =
         Inr (map (\<lambda>k. 1 + int k * (1000 div n)) [0 ..< nat (- ((1 - 1000) div (1000 div n)))])"
  using assms stride_pos [OF assms]
  by (simp add: build_timesteps_def np_arange_def)

lemma arange_nth_bound:
  assumes "0 < s" "k < nat (- ((1 - 1000) div s))"
  shows "1 \<le> 1 + int k * s \<and> 1 + int k * s < 1000"
proof -
  have "int k < - ((1 - 1000) div s)" using assms(2) by linarith
  then have "1 + int k * s < 1000" using arange_count [OF assms(1)] by simp
  moreover have "0 \<le> int k * s" using assms(1) by simp
  ultimately show ?thesis by simp
qed

lemma arange_nonempty: "0 < s \<Longrightarrow> 0 < nat (- ((1 - 1000) div s))"
  using arange_count [of s 0] by simp

lemma arange_set:
  assumes "0 < s"
  shows "set (map (\<lambda>k. 1 + int k * s) [0 ..< nat (- ((1 - 1000) div s))]) =
         {t. 1 \<le> t \<and> t < 1000 \<and> (t - 1) mod s = 0}"
proof (intro set_eqI iffI)
  fix t
  assume "t \<in> set (map (\<lambda>k. 1 + int k * s) [0 ..< nat (- ((1 - 1000) div s))])"
  then obtain k where k: "k < nat (- ((1 - 1000) div s))" "t = 1 + int k * s" by auto
  with arange_nth_bound [OF assms k(1)] show "t \<in> {t. 1 \<le> t \<and> t < 1000 \<and> (t - 1) mod s = 0}"
    by simp
next
  fix t
  assume "t \<in> {t. 1 \<le> t \<and> t < 1000 \<and> (t - 1) mod s = 0}"
  then have t: "1 \<le> t" "t < 1000" "(t - 1) mod s = 0" by simp_all
  define k where "k = nat ((t - 1) div s)"
  have "0 \<le> (t - 1) div s" using t(1) assms by (simp add: pos_imp_zdiv_nonneg_iff)
  then have ik: "int k = (t - 1) div s" by (simp add: k_def)
  have "(t - 1) div s * s = t - 1" using t(3) by (simp add: mod_0_imp_dvd)
  then have tk: "t = 1 + int k * s" using ik by simp
  then have "int k < - ((1 - 1000) div s)" using arange_count [OF assms, of k] t(2) by simp
  then have "k < nat (- ((1 - 1000) div s))" by linarith
  then show "t \<in> set (map (\<lambda>k. 1 + int k * s) [0 ..< nat (- ((1 - 1000) div s))])"
    using tk by auto
qed

lemma arange_increasing:
  assumes "0 < s"
  shows "sorted_wrt (\<lambda>a b. a < b) (map (\<lambda>k. 1 + int k * s) [0 ..< m])"
  using assms by (simp add: sorted_wrt_iff_nth_less)

lemma processing_order_timesteps: "map snd (processing_order ts) = rev ts"
  by (simp add: processing_order_def rev_map [symmetric])

text \<open>
  Claim C2. For \<open>n_steps\<close> in \<open>[1, 1000]\<close> the schedule is built without error; it
  consists of every \<open>(1000 div n_steps)\<close>-th integer starting at 1, ascending (its
  \<open>k\<close>-th entry is \<open>1 + k * (1000 div n_steps)\<close>, and it holds exactly the integers of
  \<open>[1, 1000)\<close> at such a distance from 1). In the order the loop of \<open>generate\<close>
  processes it, which is the reversed list, it is strictly decreasing and every value
  lies in \<open>[1, 1000)\<close>.
\<close>

theorem schedule_decreasing_in_range:
  assumes "1 \<le> n_steps" "n_steps \<le> 1000"
  shows "\<exists>ts. build_timesteps n_steps = Inr ts \<and>
           (\<forall>k < length ts. ts ! k = 1 + int k * (1000 div n_steps)) \<and>
           set ts = {t. 1 \<le> t \<and> t < 1000 \<and> (t - 1) mod (1000 div n_steps) = 0} \<and>
           sorted_wrt (\<lambda>a b. a < b) ts \<and>
           map snd (processing_order ts) = rev ts \<and>
           sorted_wrt (\<lambda>a b. a > b) (map snd (processing_order ts)) \<and>
           (\<forall>t \<in> set (map snd (processing_order ts)). 1 \<le> t \<and> t < 1000)"
proof -
  define s where "s = 1000 div n_steps"
  define ts where "ts = map (\<lambda>k. 1 + int k * s) [0 ..< nat (- ((1 - 1000) div s))]"
  have s: "0 < s" unfolding s_def by (rule stride_pos [OF assms])
  have a: "build_timesteps n_steps = Inr ts"
    unfolding ts_def s_def by (rule build_timesteps_eq [OF assms])
  have b: "\<forall>k < length ts. ts ! k = 1 + int k * s" by (simp add: ts_def)
  have c: "set ts = {t. 1 \<le> t \<and> t < 1000 \<and> (t - 1) mod s = 0}"
    unfolding ts_def by (rule arange_set [OF s])
  have d: "sorted_wrt (\<lambda>a b. a < b) ts" unfolding ts_def by (rule arange_increasing [OF s])
  have e: "map snd (processing_order ts) = rev ts" by (rule processing_order_timesteps)
  have f: "sorted_wrt (\<lambda>a b. a > b) (map snd (processing_order ts))"
    using d by (simp add: e sorted_wrt_rev)
  have g: "\<forall>t \<in> set (map snd (processing_order ts)). 1 \<le> t \<and> t < 1000"
    by (simp add: e c)
  from a b c d e f g show ?thesis unfolding s_def by blast
qed

lemma build_timesteps_3: "build_timesteps 3 = Inr [1, 334, 667]"
  by (simp add: build_timesteps_def np_arange_def upt_conv_Cons)

theorem schedule_decreasing_in_range_witness:
  "(1::int) \<le> 3 \<and> (3::int) \<le> 1000 \<and> build_timesteps 3 = Inr [1, 334, 667] \<and>
   map snd (processing_order [1, 334, 667]) = [667, 334, 1] \<and>
   sorted_wrt (\<lambda>a b. a > b) (map snd (processing_order [1, 334, 667 :: int]))"
  using schedule_decreasing_in_range [of 3]
  by (simp add: build_timesteps_3 processing_order_def)

text \<open>
  Claim C5, as the code has it. For \<open>n_steps\<close> in \<open>[1, 1000]\<close> the schedule has
  \<open>ceil (999 / (1000 div n_steps))\<close> entries. That number is \<open>n_steps\<close> whenever
  \<open>n_steps\<close> divides 1000 and is below 1000 (the default 25 among them).
\<close>

theorem schedule_length_by_stride:
  assumes "1 \<le> n_steps" "n_steps \<le> 1000"
  shows "\<exists>ts. build_timesteps n_steps = Inr ts \<and>
           int (length ts) = - ((- 999) div (1000 div n_steps)) \<and>
           int (length ts) = \<lceil>999 / real_of_int (1000 div n_steps)\<rceil> \<and>
           (n_steps dvd 1000 \<and> n_steps < 1000 \<longrightarrow> int (length ts) = n_steps)"
proof -
  define s where "s = 1000 div n_steps"
  have s: "0 < s" unfolding s_def by (rule stride_pos [OF assms])
  have m: "0 < nat (- ((1 - 1000) div s))" by (rule arange_nonempty [OF s])
  have a: "build_timesteps n_steps =
           Inr (map (\<lambda>k. 1 + int k * s) [0 ..< nat (- ((1 - 1000) div s))])"
    unfolding s_def by (rule build_timesteps_eq [OF assms])
  have b: "int (nat (- ((1 - 1000) div s))) = - ((- 999) div s)"
    using m by simp
  have "\<lfloor>real_of_int (- 999) / real_of_int s\<rfloor> = (- 999) div s"
    by (rule floor_divide_of_int_eq)
  then have c: "- ((- 999) div s) = \<lceil>999 / real_of_int s\<rceil>"
    by (simp add: ceiling_def)
  have d: "- ((- 999) div s) = n_steps" if "n_steps dvd 1000" "n_steps < 1000"
  proof -
    have ns: "n_steps * s = 1000" unfolding s_def using that(1) by simp
    have "s \<noteq> 1" using ns that(2) by auto
    then have s2: "1 < s" using s by simp
    have "(- 999 :: int) = 1 + (- n_steps) * s" using ns by simp
    then have "(- 999) div s = (1 + (- n_steps) * s) div s" by simp
    also have "\<dots> = - n_steps + 1 div s" by (rule div_mult_self1) (use s in simp)
    also have "\<dots> = - n_steps" using s2 by simp
    finally show ?thesis by simp
  qed
  define ts where "ts = map (\<lambda>k. 1 + int k * s) [0 ..< nat (- ((1 - 1000) div s))]"
  have len: "int (length ts) = - ((- 999) div s)"
    using b by (simp add: ts_def)
  have a': "build_timesteps n_steps = Inr ts"
    using a by (simp only: ts_def)
  have l2: "int (length ts) = \<lceil>999 / real_of_int s\<rceil>"
    by (simp only: len c)
  have l3: "n_steps dvd 1000 \<and> n_steps < 1000 \<longrightarrow> int (length ts) = n_steps"
  proof
    assume h: "n_steps dvd 1000 \<and> n_steps < 1000"
    then have "- ((- 999) div s) = n_steps" by (intro d) simp_all
    then show "int (length ts) = n_steps" by (simp only: len)
  qed
  from a' len l2 l3 show ?thesis unfolding s_def by blast
qed

lemma build_timesteps_25:
  "build_timesteps 25 =
     Inr [1, 41, 81, 121, 161, 201, 241, 281, 321, 361, 401, 441, 481, 521, 561, 601, 641,
          681, 721, 761, 801, 841, 881, 921, 961]"
  by (simp add: build_timesteps_def np_arange_def upt_conv_Cons)

theorem schedule_length_by_stride_witness:
  "(1::int) \<le> 25 \<and> (25::int) \<le> 1000 \<and> (25::int) dvd 1000 \<and> (25::int) < 1000 \<and>
   build_timesteps 25 =
     Inr [1, 41, 81, 121, 161, 201, 241, 281, 321, 361, 401, 441, 481, 521, 561, 601, 641,
          681, 721, 761, 801, 841, 881, 921, 961] \<and>
   length [1, 41, 81, 121, 161, 201, 241, 281, 321, 361, 401, 441, 481, 521, 561, 601, 641,
          681, 721, 761, 801, 841, 881, 921, 961 :: int] = 25"
  using schedule_length_by_stride [of 25]
  by (simp add: build_timesteps_25)

text \<open>
  Claim C5 as stated (the schedule has exactly \<open>n_steps\<close> entries) fails at
  \<open>n_steps = 7\<close>: the stride is 142 and the schedule has 8 entries.
\<close>

theorem schedule_length_counterexample:
  "build_timesteps 7 = Inr [1, 143, 285, 427, 569, 711, 853, 995] \<and>
   length [1, 143, 285, 427, 569, 711, 853, 995 :: int] \<noteq> 7"
  by (simp add: build_timesteps_def np_arange_def upt_conv_Cons)

section \<open>The coefficient table and the alphas\<close>

lemma ALPHAS_CUMPROD_length: "length ALPHAS_CUMPROD = 1000"
  unfolding ALPHAS_CUMPROD_def by simp

lemma alpha_cumprod_cases:
  "alpha_cumprod t =
     (if 0 \<le> t \<and> t < 1000 then Inr (ALPHAS_CUMPROD ! nat t)
      else if - 1000 \<le> t \<and> t < 0 then Inr (ALPHAS_CUMPROD ! nat (1000 + t))
      else Inl IndexError)"
  by (simp add: alpha_cumprod_def getitem_def ALPHAS_CUMPROD_length)

lemma mapM_err_all:
  "(\<And>x. x \<in> set xs \<Longrightarrow> f x = Inr (g x)) \<Longrightarrow> mapM_err f xs = Inr (map g xs)"
  by (induction xs) (simp_all add: bind_err_Inr)

lemma build_alphas_eq:
  assumes "\<And>t. t \<in> set ts \<Longrightarrow> 0 \<le> t \<and> t < 1000"
  shows "build_alphas ts = Inr (map (\<lambda>t. ALPHAS_CUMPROD ! nat t) ts)"
  unfolding build_alphas_def
  by (rule mapM_err_all) (use assms in \<open>simp add: alpha_cumprod_cases\<close>)

lemma build_alphas_prev_0: "build_alphas_prev alphas ! 0 = 1"
  by (simp add: build_alphas_prev_def)

lemma build_alphas_prev_nth:
  "0 < i \<Longrightarrow> i < length alphas \<Longrightarrow> build_alphas_prev alphas ! i = alphas ! (i - 1)"
  by (cases i) (simp_all add: build_alphas_prev_def nth_butlast)

lemma build_alphas_prev_length:
  "alphas \<noteq> [] \<Longrightarrow> length (build_alphas_prev alphas) = length alphas"
  by (simp add: build_alphas_prev_def)

text \<open>
  Claim C3. For \<open>n_steps\<close> in \<open>[1, 1000]\<close> the schedule and its alphas are built
  without error, \<open>alphas ! i\<close> is the table entry at the \<open>i\<close>-th ascending timestep, and
  the list \<open>alphas_prev\<close>, as long as \<open>alphas\<close>, has \<open>alphas_prev ! 0 = 1\<close> and
  \<open>alphas_prev ! i = alphas ! (i - 1)\<close> for every later index \<open>i\<close>.
\<close>

theorem alphas_prev_aligned:
  assumes "1 \<le> n_steps" "n_steps \<le> 1000"
  shows "\<exists>ts alphas. build_timesteps n_steps = Inr ts \<and> build_alphas ts = Inr alphas \<and>
           length alphas = length ts \<and>
           (\<forall>i < length ts. alpha_cumprod (ts ! i) = Inr (alphas ! i) \<and>
                            alphas ! i = ALPHAS_CUMPROD ! nat (ts ! i)) \<and>
           length (build_alphas_prev alphas) = length alphas \<and>
           build_alphas_prev alphas ! 0 = 1 \<and>
           (\<forall>i. 0 < i \<and> i < length alphas \<longrightarrow> build_alphas_prev alphas ! i = alphas ! (i - 1))"
proof -
  define s where "s = 1000 div n_steps"
  define ts where "ts = map (\<lambda>k. 1 + int k * s) [0 ..< nat (- ((1 - 1000) div s))]"
  define alphas where "alphas = map (\<lambda>t. ALPHAS_CUMPROD ! nat t) ts"
  have s: "0 < s" unfolding s_def by (rule stride_pos [OF assms])
  have a: "build_timesteps n_steps = Inr ts"
    unfolding ts_def s_def by (rule build_timesteps_eq [OF assms])
  have r: "0 \<le> t \<and> t < 1000" if "t \<in> set ts" for t
    using that arange_set [OF s] by (simp add: ts_def)
  have b: "build_alphas ts = Inr alphas"
    unfolding alphas_def by (rule build_alphas_eq) (rule r)
  have c: "length alphas = length ts" by (simp add: alphas_def)
  have d: "\<forall>i < length ts. alpha_cumprod (ts ! i) = Inr (alphas ! i) \<and>
                           alphas ! i = ALPHAS_CUMPROD ! nat (ts ! i)"
  proof (intro allI impI)
    fix i assume i: "i < length ts"
    then have "0 \<le> ts ! i \<and> ts ! i < 1000" by (intro r) simp
    then show "alpha_cumprod (ts ! i) = Inr (alphas ! i) \<and>
               alphas ! i = ALPHAS_CUMPROD ! nat (ts ! i)"
      using i by (simp add: alpha_cumprod_cases alphas_def)
  qed
  have "ts \<noteq> []" using arange_nonempty [OF s] by (simp add: ts_def)
  then have ne: "alphas \<noteq> []" by (simp add: alphas_def)
  have e: "length (build_alphas_prev alphas) = length alphas"
    by (rule build_alphas_prev_length [OF ne])
  have f: "build_alphas_prev alphas ! 0 = 1" by (rule build_alphas_prev_0)
  have g: "\<forall>i. 0 < i \<and> i < length alphas \<longrightarrow> build_alphas_prev alphas ! i = alphas ! (i - 1)"
    by (simp add: build_alphas_prev_nth)
  from a b c d e f g show ?thesis by blast
qed

lemma build_timesteps_2: "build_timesteps 2 = Inr [1, 501]"
  by (simp add: build_timesteps_def np_arange_def upt_conv_Cons)

lemma ALPHAS_CUMPROD_0: "ALPHAS_CUMPROD ! 0 = 0.99915"
  unfolding ALPHAS_CUMPROD_def by simp

lemma ALPHAS_CUMPROD_1: "ALPHAS_CUMPROD ! Suc 0 = 0.998296"
  unfolding ALPHAS_CUMPROD_def by simp

lemma ALPHAS_CUMPROD_501: "ALPHAS_CUMPROD ! 501 = 0.27499905"
  unfolding ALPHAS_CUMPROD_def by simp

lemma ALPHAS_CUMPROD_999: "ALPHAS_CUMPROD ! 999 = 0.0046600983"
  unfolding ALPHAS_CUMPROD_def by simp

theorem alphas_prev_aligned_witness:
  "(1::int) \<le> 2 \<and> (2::int) \<le> 1000 \<and> build_timesteps 2 = Inr [1, 501] \<and>
   build_alphas [1, 501] = Inr [0.998296, 0.27499905] \<and>
   build_alphas_prev [0.998296, 0.27499905] = [1, 0.998296]"
  using alphas_prev_aligned [of 2]
  by (simp add: build_timesteps_2 build_alphas_def bind_err_Inr alpha_cumprod_cases
        ALPHAS_CUMPROD_1 ALPHAS_CUMPROD_501 build_alphas_prev_def)

text \<open>
  Claim C8, as the code has it. The lookup \<^verbatim>\<open>_ALPHAS_CUMPROD[t]\<close> returns the table
  entry at index \<open>t\<close> for \<open>t\<close> in \<open>[0, 1000)\<close>, the entry at index \<open>1000 + t\<close> for
  \<open>t\<close> in \<open>[-1000, 0)\<close> (a negative index of a Python list counts from the end), and
  fails with IndexError exactly for \<open>t\<close> outside \<open>[-1000, 1000)\<close>.
\<close>

theorem alpha_cumprod_lookup:
  "alpha_cumprod t =
     (if 0 \<le> t \<and> t < 1000 then Inr (ALPHAS_CUMPROD ! nat t)
      else if - 1000 \<le> t \<and> t < 0 then Inr (ALPHAS_CUMPROD ! nat (1000 + t))
      else Inl IndexError) \<and>
   (alpha_cumprod t = Inl IndexError \<longleftrightarrow> t < - 1000 \<or> 1000 \<le> t)"
  by (auto simp: alpha_cumprod_cases)

theorem alpha_cumprod_lookup_witness:
  "alpha_cumprod 0 = Inr 0.99915 \<and> alpha_cumprod 999 = Inr 0.0046600983 \<and>
   alpha_cumprod (- 1000) = Inr 0.99915 \<and>
   alpha_cumprod 1000 = Inl IndexError \<and> alpha_cumprod (- 1001) = Inl IndexError"
  using alpha_cumprod_lookup [of 0] alpha_cumprod_lookup [of 999]
        alpha_cumprod_lookup [of "- 1000"] alpha_cumprod_lookup [of 1000]
        alpha_cumprod_lookup [of "- 1001"]
  by (simp add: ALPHAS_CUMPROD_0 ALPHAS_CUMPROD_999)

text \<open>
  Claim C8 as stated (IndexError for every negative timestep) fails at \<open>t = -1\<close>: the
  lookup returns the last entry of the table.
\<close>

theorem alpha_cumprod_negative_counterexample:
  "alpha_cumprod (- 1) = Inr 0.0046600983 \<and> alpha_cumprod (- 1) \<noteq> Inl IndexError"
  by (simp add: alpha_cumprod_cases ALPHAS_CUMPROD_999)

section \<open>Prompt validation\<close>

lemma bind_err_no_assert:
  "r \<noteq> Inl AssertionError \<Longrightarrow> (\<And>v. f v \<noteq> Inl AssertionError) \<Longrightarrow>
   bind_err r f \<noteq> Inl AssertionError"
  by (cases r) (simp_all add: bind_err_def)

lemma math_sqrt_no_assert: "math_sqrt v \<noteq> Inl AssertionError"
  by (simp add: math_sqrt_def)

lemma tensor_sub_no_assert: "tensor_sub x y \<noteq> Inl AssertionError"
  by (simp add: tensor_sub_def)

lemma tensor_add_no_assert: "tensor_add x y \<noteq> Inl AssertionError"
  by (simp add: tensor_add_def)

lemma tensor_div_no_assert: "tensor_div x d \<noteq> Inl AssertionError"
  by (simp add: tensor_div_def)

lemma getitem_no_assert: "getitem xs i \<noteq> Inl AssertionError"
  by (simp add: getitem_def)

lemma guided_no_assert: "guided u c s \<noteq> Inl AssertionError"
  unfolding guided_def
  by (intro bind_err_no_assert tensor_sub_no_assert tensor_add_no_assert)

lemma get_model_output_no_assert:
  "get_model_output self latent t context unconditional_context scale \<noteq> Inl AssertionError"
  by (simp add: get_model_output_eq guided_no_assert)

lemma step_no_assert:
  "get_x_prev_and_pred_x0 x e_t index a_t a_prev temperature draw \<noteq> Inl AssertionError"
  unfolding get_x_prev_and_pred_x0_def Let_def
  by (intro bind_err_no_assert math_sqrt_no_assert tensor_sub_no_assert tensor_add_no_assert
        tensor_div_no_assert) simp

lemma build_timesteps_no_assert: "build_timesteps n \<noteq> Inl AssertionError"
  by (simp add: build_timesteps_def np_arange_def)

lemma build_alphas_no_assert: "build_alphas ts \<noteq> Inl AssertionError"
  unfolding build_alphas_def
proof (induction ts)
  case Nil
  show ?case by simp
next
  case (Cons t ts)
  show ?case
    unfolding mapM_err.simps
    by (intro bind_err_no_assert Cons) (simp_all add: alpha_cumprod_def getitem_no_assert)
qed

lemma denoise_no_assert:
  "denoise self context unconditional_context scale temperature alphas alphas_prev draws k
     steps latent \<noteq> Inl AssertionError"
proof (induction steps arbitrary: k latent)
  case Nil
  show ?case by simp
next
  case (Cons p steps)
  obtain index timestep where p: "p = (index, timestep)" by (cases p)
  show ?case
    unfolding p denoise.simps
    by (intro bind_err_no_assert get_model_output_no_assert getitem_no_assert step_no_assert)
       (simp add: split_def Cons)
qed

lemma encode_phrase_cases:
  "encode_phrase self prompt =
     (if length (tokenizer_encode self prompt) < 77
      then Inr (tokenizer_encode self prompt @
                replicate (77 - length (tokenizer_encode self prompt)) 49407)
      else Inl AssertionError)"
  by (simp add: encode_phrase_def Let_def)

lemma generate_assert_iff:
  "generate self prompt n_steps scale temperature draws = Inl AssertionError \<longleftrightarrow>
   77 \<le> length (tokenizer_encode self prompt)"
proof (cases "length (tokenizer_encode self prompt) < 77")
  case True
  then have e: "encode_phrase self prompt =
      Inr (tokenizer_encode self prompt @
           replicate (77 - length (tokenizer_encode self prompt)) 49407)"
    by (simp add: encode_phrase_cases)
  have "generate self prompt n_steps scale temperature draws \<noteq> Inl AssertionError"
    unfolding generate_def Let_def e bind_err_Inr
    by (intro bind_err_no_assert build_timesteps_no_assert build_alphas_no_assert
          denoise_no_assert) simp
  then show ?thesis using True by simp
next
  case False
  then have "encode_phrase self prompt = Inl AssertionError"
    by (simp add: encode_phrase_cases)
  then have "generate self prompt n_steps scale temperature draws = Inl AssertionError"
    by (simp add: generate_def Let_def bind_err_Inl)
  then show ?thesis using False by simp
qed

text \<open>
  Claim C7. \<open>generate\<close> fails with the assertion's error exactly when the tokenizer
  returns 77 tokens or more, whatever the other arguments, the networks and the random
  draws are: the prompt is rejected before the schedule is built or anything is sampled.
  A prompt of fewer than 77 tokens is accepted and padded with 49407 to length 77; one of
  exactly 76 tokens gets a single pad token.
\<close>

theorem prompt_length_validation:
  "(generate self prompt n_steps scale temperature draws = Inl AssertionError \<longleftrightarrow>
      77 \<le> length (tokenizer_encode self prompt)) \<and>
   (encode_phrase self prompt = Inl AssertionError \<longleftrightarrow>
      77 \<le> length (tokenizer_encode self prompt)) \<and>
   (length (tokenizer_encode self prompt) = 76 \<longrightarrow>
      encode_phrase self prompt = Inr (tokenizer_encode self prompt @ [49407])) \<and>
   (length (tokenizer_encode self prompt) < 77 \<longrightarrow>
      (\<exists>phrase. encode_phrase self prompt = Inr phrase \<and> length phrase = 77 \<and>
         take (length (tokenizer_encode self prompt)) phrase = tokenizer_encode self prompt \<and>
         (\<forall>i. length (tokenizer_encode self prompt) \<le> i \<and> i < 77 \<longrightarrow> phrase ! i = 49407)))"
proof -
  have a: "generate self prompt n_steps scale temperature draws = Inl AssertionError \<longleftrightarrow>
      77 \<le> length (tokenizer_encode self prompt)"
    by (rule generate_assert_iff)
  have b: "encode_phrase self prompt = Inl AssertionError \<longleftrightarrow>
      77 \<le> length (tokenizer_encode self prompt)"
    by (auto simp: encode_phrase_cases)
  have c: "length (tokenizer_encode self prompt) = 76 \<longrightarrow>
      encode_phrase self prompt = Inr (tokenizer_encode self prompt @ [49407])"
    by (simp add: encode_phrase_cases)
  have d: "length (tokenizer_encode self prompt) < 77 \<longrightarrow>
      (\<exists>phrase. encode_phrase self prompt = Inr phrase \<and> length phrase = 77 \<and>
         take (length (tokenizer_encode self prompt)) phrase = tokenizer_encode self prompt \<and>
         (\<forall>i. length (tokenizer_encode self prompt) \<le> i \<and> i < 77 \<longrightarrow> phrase ! i = 49407))"
    by (auto simp: encode_phrase_cases nth_append)
  from a b c d show ?thesis by blast
qed

theorem prompt_length_validation_witness:
  "encode_phrase
     \<lparr>img_height = 8, img_width = 8, batch_size = 1, tokenizer_encode = (\<lambda>p. replicate 76 5),
      text_encoder = (\<lambda>p q. ()), diffusion_model = (\<lambda>l e k. l),
      decoder = (\<lambda>l. l), tokens_unconditional = []\<rparr> ''a'' = Inr (replicate 76 5 @ [49407]) \<and>
   generate
     \<lparr>img_height = 8, img_width = 8, batch_size = 1, tokenizer_encode = (\<lambda>p. replicate 76 5),
      text_encoder = (\<lambda>p q. ()), diffusion_model = (\<lambda>l e k. l),
      decoder = (\<lambda>l. l), tokens_unconditional = []\<rparr> ''a'' 25 (15 / 2) 1 (\<lambda>k j. 0)
     \<noteq> Inl AssertionError \<and>
   generate
     \<lparr>img_height = 8, img_width = 8, batch_size = 1, tokenizer_encode = (\<lambda>p. replicate 77 5),
      text_encoder = (\<lambda>p q. ()), diffusion_model = (\<lambda>l e k. l),
      decoder = (\<lambda>l. l), tokens_unconditional = []\<rparr> ''a'' 25 (15 / 2) 1 (\<lambda>k j. 0)
     = Inl AssertionError"
  using prompt_length_validation
          [of "\<lparr>img_height = 8, img_width = 8, batch_size = 1,
                 tokenizer_encode = (\<lambda>p. replicate 76 5),
                 text_encoder = (\<lambda>p q. ()), diffusion_model = (\<lambda>l e k. l),
                 decoder = (\<lambda>l. l), tokens_unconditional = []\<rparr>" "''a''" 25 "15 / 2" 1 "\<lambda>k j. 0"]
        prompt_length_validation
          [of "\<lparr>img_height = 8, img_width = 8, batch_size = 1,
                 tokenizer_encode = (\<lambda>p. replicate 77 5),
                 text_encoder = (\<lambda>p q. ()), diffusion_model = (\<lambda>l e k. l),
                 decoder = (\<lambda>l. l), tokens_unconditional = []\<rparr>" "''a''" 25 "15 / 2" 1 "\<lambda>k j. 0"]
  by simp

end
